theory Spec2Isabelle
  imports Complex_Main "HOL-Library.Sublist"
begin

text \<open>
  A shallow embedding of \<^verbatim>\<open>src/utils/oslot.js\<close>: the two functions
  \<^verbatim>\<open>executeSwapWithOSlot\<close> and \<^verbatim>\<open>fetchSwapTransaction\<close>. The source holds two listings of the
  file. The first (lines 1 to 276) submits the signed transaction by a JSON-RPC request of
  its own; the second (lines 279 to 480) submits it through \<^verbatim>\<open>Connection.sendRawTransaction\<close>.
  Their \<^verbatim>\<open>fetchSwapTransaction\<close> differ in one marker of the endpoint. The functions are
  asynchronous and work on the network, the wallet, the clock and the console; here each is
  a function from the world before the call to the result and the world after it, and the
  collaborators are the fields of an environment.
\<close>

section \<open>JavaScript values\<close>

text \<open>
  The code handles values that come out of \<^verbatim>\<open>JSON.parse\<close> and out of the caller's
  \<^verbatim>\<open>swapParams\<close> object. They are modelled by one datatype of JavaScript values. A finite
  number is the rational it denotes (every double is one; both zeros are \<open>Num 0\<close>); an
  object is the association list of its own properties, looked up by key.
\<close>

datatype js =
    Undefined
  | Null
  | Bool bool
  | Num rat
  | NaN
  | PosInfinity
  | NegInfinity
  | Str string
  | Arr "js list"
  | Obj "(string \<times> js) list"

text \<open>
  The failures of the program. \<^verbatim>\<open>throw new Error(msg)\<close> is \<open>Error site msg\<close>, where the site
  records which \<^verbatim>\<open>throw\<close> statement of the source raised it; \<open>TypeError\<close> is a property read
  on \<^verbatim>\<open>null\<close> or \<^verbatim>\<open>undefined\<close>, or the conversion to a string of a value that has none;
  \<open>SyntaxError\<close> is \<^verbatim>\<open>response.json()\<close> or \<^verbatim>\<open>JSON.parse\<close> on a
  body that is not JSON; \<open>Foreign\<close> is a rejection raised by a collaborator (the wallet,
  the network, the transaction library).
\<close>

datatype site =
    relay_status       \<comment> \<open>line 98: the relay answered with a status other than 200\<close>
  | relay_error        \<comment> \<open>line 118: the 200 answer has an \<^verbatim>\<open>error\<close>\<close>
  | relay_format       \<comment> \<open>line 135: the 200 answer has none of the fields looked for\<close>
  | aggregator_http    \<comment> \<open>lines 179 and 383: custom endpoint, \<^verbatim>\<open>!response.ok\<close>\<close>
  | aggregator_format  \<comment> \<open>lines 192 and 396: custom endpoint, no \<^verbatim>\<open>data.swapData\<close>\<close>
  | quote_http         \<comment> \<open>lines 213 and 417: Jupiter quote, \<^verbatim>\<open>!quoteResponse.ok\<close>\<close>
  | swap_http          \<comment> \<open>lines 235 and 439: Jupiter swap, \<^verbatim>\<open>!swapResponse.ok\<close>\<close>
  | swap_format        \<comment> \<open>lines 243 and 447: Jupiter swap, no \<^verbatim>\<open>swapTransaction\<close>\<close>
  | legacy_http        \<comment> \<open>lines 256 and 460: direct endpoint, \<^verbatim>\<open>!response.ok\<close>\<close>
  | legacy_format      \<comment> \<open>lines 269 and 473: direct endpoint, none of the three fields\<close>

datatype exn = Error site string | TypeError | SyntaxError | Foreign string

text \<open>JavaScript truthiness (\<^verbatim>\<open>ToBoolean\<close>).\<close>

fun truthy :: "js \<Rightarrow> bool" where
  "truthy Undefined = False"
| "truthy Null = False"
| "truthy (Bool b) = b"
| "truthy (Num q) = (q \<noteq> 0)"
| "truthy NaN = False"
| "truthy PosInfinity = True"
| "truthy NegInfinity = True"
| "truthy (Str s) = (s \<noteq> [])"
| "truthy (Arr xs) = True"
| "truthy (Obj fs) = True"

text \<open>\<^verbatim>\<open>a || b\<close> on values whose evaluation cannot raise.\<close>

definition js_or :: "js \<Rightarrow> js \<Rightarrow> js" where
  "js_or a b = (if truthy a then a else b)"

text \<open>
  The property read \<^verbatim>\<open>v.k\<close>, for the property names the source reads (none of them is
  inherited from a prototype): a \<^verbatim>\<open>TypeError\<close> on \<^verbatim>\<open>null\<close> and \<^verbatim>\<open>undefined\<close>, the own
  property of an object, \<^verbatim>\<open>undefined\<close> everywhere else.
\<close>

fun get :: "js \<Rightarrow> string \<Rightarrow> exn + js" where
  "get Undefined k = Inl TypeError"
| "get Null k = Inl TypeError"
| "get (Obj fs) k = Inr (case map_of fs k of None \<Rightarrow> Undefined | Some v \<Rightarrow> v)"
| "get v k = Inr Undefined"

definition nullish :: "js \<Rightarrow> bool" where
  "nullish v = (v = Undefined \<or> v = Null)"

text \<open>Decimal digits of an integer.\<close>

fun show_nat :: "nat \<Rightarrow> string" where
  "show_nat n =
     (if n < 10 then [''0123456789'' ! n]
      else show_nat (n div 10) @ [''0123456789'' ! (n mod 10)])"

declare show_nat.simps [simp del]

definition show_int :: "int \<Rightarrow> string" where
  "show_int i = (if i < 0 then ''-'' @ show_nat (nat (- i)) else show_nat (nat i))"

text \<open>
  \<^verbatim>\<open>Number.prototype.toString\<close>. A safe integer (one of magnitude below \<open>2^53\<close>) prints as
  its decimal digits. What JavaScript prints for any other number (a fraction, a larger
  magnitude: the shortest digits that read back as the same double, with an exponent from
  \<open>10^21\<close>) is left to the parameter \<open>pr\<close>.
\<close>

definition safe_integer :: "rat \<Rightarrow> bool" where
  "safe_integer q = (of_int \<lfloor>q\<rfloor> = q \<and> \<bar>q\<bar> \<le> 9007199254740991)"

definition show_number :: "(rat \<Rightarrow> string) \<Rightarrow> rat \<Rightarrow> string" where
  "show_number pr q = (if safe_integer q then show_int \<lfloor>q\<rfloor> else pr q)"

text \<open>\<^verbatim>\<open>Array.prototype.join(",")\<close> on strings already rendered.\<close>

fun join_comma :: "string list \<Rightarrow> string" where
  "join_comma [] = []"
| "join_comma [s] = s"
| "join_comma (s # t # ss) = s @ '','' @ join_comma (t # ss)"

text \<open>
  \<^verbatim>\<open>ToString\<close>: what a template literal, \<^verbatim>\<open>new Error(v)\<close> and \<^verbatim>\<open>URLSearchParams\<close> make of a
  value. An object is converted by its \<^verbatim>\<open>toString\<close> method. A value out of \<^verbatim>\<open>JSON.parse\<close> holds
  no function, so an object with an own member \<^verbatim>\<open>toString\<close> has no string and the conversion
  raises a \<^verbatim>\<open>TypeError\<close>; so does an array that holds such an object, since an array joins the
  strings of its elements.
\<close>

fun unprintable :: "js \<Rightarrow> bool" where
  "unprintable (Obj fs) = (map_of fs ''toString'' \<noteq> None)"
| "unprintable (Arr xs) = (\<exists>x \<in> set xs. unprintable x)"
| "unprintable v = False"

text \<open>
  The string of a value that has one. Inside an array \<^verbatim>\<open>null\<close> and \<^verbatim>\<open>undefined\<close> render as
  the empty string; an object without a \<^verbatim>\<open>toString\<close> of its own renders by
  \<^verbatim>\<open>Object.prototype.toString\<close>.
\<close>

fun to_string :: "(rat \<Rightarrow> string) \<Rightarrow> js \<Rightarrow> string" where
  "to_string pr Undefined = ''undefined''"
| "to_string pr Null = ''null''"
| "to_string pr (Bool b) = (if b then ''true'' else ''false'')"
| "to_string pr (Num q) = show_number pr q"
| "to_string pr NaN = ''NaN''"
| "to_string pr PosInfinity = ''Infinity''"
| "to_string pr NegInfinity = ''-Infinity''"
| "to_string pr (Str s) = s"
| "to_string pr (Arr xs) =
     join_comma (map (\<lambda>x. if x = Undefined \<or> x = Null then [] else to_string pr x) xs)"
| "to_string pr (Obj fs) = ''[object Object]''"

text \<open>\<^verbatim>\<open>String.prototype.includes\<close>: \<open>t\<close> occurs in \<open>s\<close> as a contiguous substring.\<close>

fun includes_str :: "string \<Rightarrow> string \<Rightarrow> bool" where
  "includes_str [] t = (t = [])"
| "includes_str (c # cs) t = (prefix t (c # cs) \<or> includes_str cs t)"

section \<open>The world the two functions run in\<close>

text \<open>
  An HTTP request as \<^verbatim>\<open>fetch(url, init)\<close> sends it, and the response as the code reads it:
  \<^verbatim>\<open>response.text()\<close> is \<open>body_text\<close>, and \<open>body_json\<close> is what \<^verbatim>\<open>JSON.parse\<close> makes of that
  text (\<open>None\<close> when it is not JSON, so that \<^verbatim>\<open>response.json()\<close> rejects with a
  \<^verbatim>\<open>SyntaxError\<close>). Reading the body of a response that has arrived does not fail otherwise.
\<close>

record request =
  req_method :: string
  req_url :: string
  req_headers :: "(string \<times> string) list"
  req_body :: "string option"

record response =
  status :: nat
  statusText :: string
  body_text :: string
  body_json :: "js option"

definition ok :: "response \<Rightarrow> bool" where
  "ok r = (200 \<le> status r \<and> status r \<le> 299)"

text \<open>
  A console line is its level and its parts; an elapsed time is kept as the number of
  seconds itself, not as its rendering by \<^verbatim>\<open>toFixed(5)\<close>. The emoji that open the lines of
  the source are left out.
\<close>

datatype level = Log | Err

datatype part = T string | Secs rat | Count nat | V js | E exn

type_synonym line = "level \<times> part list"

record send_options =
  skipPreflight :: bool
  maxRetries :: nat

text \<open>
  The collaborators: the clock (\<open>now k\<close> is the \<open>k\<close>-th reading of \<^verbatim>\<open>performance.now()\<close>, in
  milliseconds), the transaction library, \<^verbatim>\<open>JSON.stringify\<close>, the printing of the numbers
  that are not safe integers, the serialisation of \<^verbatim>\<open>URLSearchParams\<close>, the network and the
  \<^verbatim>\<open>Connection\<close> class, whose \<^verbatim>\<open>sendRawTransaction\<close> resolves to a string. A collaborator that
  fails returns \<open>Inl\<close> of a description of what it raised.
\<close>

record ('tx, 'conn) env =
  now :: "nat \<Rightarrow> rat"
  deserialize :: "js \<Rightarrow> string + 'tx"
  serialize :: "'tx \<Rightarrow> string + nat list"
  toBase64 :: "nat list \<Rightarrow> string"
  JSON_stringify :: "js \<Rightarrow> string"
  Number_toString :: "rat \<Rightarrow> string"
  URLSearchParams :: "(string \<times> string) list \<Rightarrow> string"
  http :: "request \<Rightarrow> string + response"
  new_Connection :: "string \<Rightarrow> string \<Rightarrow> string + 'conn"
  sendRawTransaction :: "'conn \<Rightarrow> nat list \<Rightarrow> send_options \<Rightarrow> string + string"

text \<open>
  What a call leaves behind: the clock readings taken, the console, the requests sent with
  \<^verbatim>\<open>fetch\<close>, the transactions handed to \<^verbatim>\<open>sendRawTransaction\<close>.
\<close>

record world =
  tick :: nat
  console :: "line list"
  sent :: "request list"
  broadcasts :: "(nat list \<times> send_options) list"

type_synonym 'a io = "world \<Rightarrow> (exn + 'a) \<times> world"

definition io_return :: "'a \<Rightarrow> 'a io" where
  "io_return x w = (Inr x, w)"

definition io_throw :: "exn \<Rightarrow> 'a io" where
  "io_throw e w = (Inl e, w)"

definition io_bind :: "'a io \<Rightarrow> ('a \<Rightarrow> 'b io) \<Rightarrow> 'b io" where
  "io_bind m f w = (case m w of (Inl e, w') \<Rightarrow> (Inl e, w') | (Inr x, w') \<Rightarrow> f x w')"

definition io_then :: "'a io \<Rightarrow> 'b io \<Rightarrow> 'b io" where
  "io_then m k = io_bind m (\<lambda>_. k)"

text \<open>\<^verbatim>\<open>try { m } catch (error) { h error }\<close>.\<close>

definition io_catch :: "'a io \<Rightarrow> (exn \<Rightarrow> 'a io) \<Rightarrow> 'a io" where
  "io_catch m h w = (case m w of (Inl e, w') \<Rightarrow> h e w' | (Inr x, w') \<Rightarrow> (Inr x, w'))"

definition io_of :: "exn + 'a \<Rightarrow> 'a io" where
  "io_of r w = (r, w)"

definition await :: "string + 'a \<Rightarrow> 'a io" where
  "await r w = (case r of Inl d \<Rightarrow> (Inl (Foreign d), w) | Inr x \<Rightarrow> (Inr x, w))"

definition performance_now :: "('tx, 'conn) env \<Rightarrow> rat io" where
  "performance_now env w = (Inr (now env (tick w)), w\<lparr>tick := Suc (tick w)\<rparr>)"

definition console_log :: "part list \<Rightarrow> unit io" where
  "console_log ps w = (Inr (), w\<lparr>console := console w @ [(Log, ps)]\<rparr>)"

definition console_error :: "part list \<Rightarrow> unit io" where
  "console_error ps w = (Inr (), w\<lparr>console := console w @ [(Err, ps)]\<rparr>)"

definition fetch :: "('tx, 'conn) env \<Rightarrow> request \<Rightarrow> response io" where
  "fetch env req w =
     (case http env req of
        Inl d \<Rightarrow> (Inl (Foreign d), w\<lparr>sent := sent w @ [req]\<rparr>)
      | Inr r \<Rightarrow> (Inr r, w\<lparr>sent := sent w @ [req]\<rparr>))"

definition send_raw ::
  "('tx, 'conn) env \<Rightarrow> 'conn \<Rightarrow> nat list \<Rightarrow> send_options \<Rightarrow> string io" where
  "send_raw env c bytes opts w =
     (case sendRawTransaction env c bytes opts of
        Inl d \<Rightarrow> (Inl (Foreign d), w\<lparr>broadcasts := broadcasts w @ [(bytes, opts)]\<rparr>)
      | Inr v \<Rightarrow> (Inr v, w\<lparr>broadcasts := broadcasts w @ [(bytes, opts)]\<rparr>))"

definition response_json :: "response \<Rightarrow> js io" where
  "response_json r = (case body_json r of None \<Rightarrow> io_throw SyntaxError | Some v \<Rightarrow> io_return v)"

text \<open>
  \<^verbatim>\<open>ToString\<close> of a value, and the method call \<^verbatim>\<open>v.toString()\<close>, which raises a \<^verbatim>\<open>TypeError\<close>
  on \<^verbatim>\<open>null\<close> and \<^verbatim>\<open>undefined\<close> as well.
\<close>

definition ToString :: "('tx, 'conn) env \<Rightarrow> js \<Rightarrow> exn + string" where
  "ToString env v =
     (if unprintable v then Inl TypeError else Inr (to_string (Number_toString env) v))"

definition toString :: "('tx, 'conn) env \<Rightarrow> js \<Rightarrow> exn + string" where
  "toString env v = (if nullish v then Inl TypeError else ToString env v)"

text \<open>\<^verbatim>\<open>((performance.now() - start) / 1000)\<close>, the elapsed seconds since \<open>start\<close>.\<close>

definition elapsed :: "('tx, 'conn) env \<Rightarrow> rat \<Rightarrow> rat io" where
  "elapsed env start = io_bind (performance_now env) (\<lambda>t. io_return ((t - start) / 1000))"

section \<open>executeSwapWithOSlot, JSON-RPC relay\<close>

text \<open>
  The body of the inner \<^verbatim>\<open>try\<close> (lines 85 to 90) on a status other than 200: the value it
  leaves in \<^verbatim>\<open>errorMessage\<close>, or what it raises, a \<^verbatim>\<open>SyntaxError\<close> of \<^verbatim>\<open>JSON.parse\<close> on a text
  that is not JSON or a \<^verbatim>\<open>TypeError\<close> of the property read on a parsed \<^verbatim>\<open>null\<close>.
\<close>

definition errorMessage_try :: "response \<Rightarrow> string \<Rightarrow> exn + js" where
  "errorMessage_try response generic =
     (case body_json response of
        None \<Rightarrow> Inl SyntaxError
      | Some errorData \<Rightarrow>
          (case get errorData ''error'' of
             Inl e \<Rightarrow> Inl e
           | Inr err \<Rightarrow>
               if truthy err then
                 (case get err ''message'' of
                    Inl e \<Rightarrow> Inl e
                  | Inr m \<Rightarrow>
                      (case get err ''code'' of
                         Inl e \<Rightarrow> Inl e
                       | Inr c \<Rightarrow> Inr (js_or m (js_or c (Str generic)))))
               else
                 (case get errorData ''message'' of
                    Inl e \<Rightarrow> Inl e
                  | Inr m \<Rightarrow> if truthy m then Inr m else Inr (Str generic))))"

text \<open>
  The value of \<^verbatim>\<open>errorMessage\<close> after the inner \<^verbatim>\<open>try\<close>/\<^verbatim>\<open>catch\<close> (lines 82 to 96): the handler
  catches what the body raised and appends the text of the response, when there is one, to
  the generic message.
\<close>

definition errorMessage :: "response \<Rightarrow> js" where
  "errorMessage response =
     (let errorText = body_text response;
          generic = ''0slot execution failed: incorrect status code: '' @ show_nat (status response)
      in case errorMessage_try response generic of
           Inr v \<Rightarrow> v
         | Inl e \<Rightarrow> if errorText \<noteq> [] then Str (generic @ '', '' @ errorText) else Str generic)"

text \<open>The payload of the request (\<^verbatim>\<open>const payload = {...}\<close>).\<close>

definition payload :: "string \<Rightarrow> js" where
  "payload serializedTx =
     Obj [(''jsonrpc'', Str ''2.0''),
          (''id'', Num 1),
          (''method'', Str ''sendTransaction''),
          (''params'',
             Arr [Str serializedTx,
                  Obj [(''encoding'', Str ''base64''),
                       (''skipPreflight'', Bool True),
                       (''preflightCommitment'', Str ''processed''),
                       (''maxRetries'', Num 0),
                       (''minContextSlot'', Null)]])]"

text \<open>
  The branch on the parsed body of a 200 response. The template literals of lines 110, 111
  and 118 convert the result and the message to strings, which may raise.
\<close>

definition on_responseData :: "('tx, 'conn) env \<Rightarrow> js \<Rightarrow> rat \<Rightarrow> rat \<Rightarrow> js io" where
  "on_responseData env responseData responseTime totalTime =
     io_bind (io_of (get responseData ''result'')) (\<lambda>result.
     if truthy result then
       io_then (console_log [T ''Response received in '', Secs responseTime, T '' seconds''])
      (io_then (console_log [T ''Total execution time: '', Secs totalTime, T '' seconds''])
      (io_bind (io_of (ToString env result)) (\<lambda>signature.
       io_then (console_log [T ''Transaction signature: '', T signature])
      (io_then (console_log [T ''It took '', Secs totalTime, T '' seconds to send transaction '',
                             T signature, T '' (ZeroSlot)''])
      (io_then (console_log
                  [T ''Note: This is easy to optimize, you just have to be closer to 0slot server''])
      (io_return result))))))
     else
       io_bind (io_of (get responseData ''error'')) (\<lambda>err.
       if truthy err then
         io_then (console_error [T ''0slot error response received after '', Secs responseTime,
                                 T '' seconds''])
        (io_then (console_error [T ''Total execution time: '', Secs totalTime, T '' seconds''])
        (io_bind (io_of (get err ''message'')) (\<lambda>m.
         io_bind (io_of (ToString env (js_or m (Str (JSON_stringify env err))))) (\<lambda>text.
         io_throw (Error relay_error (''0slot error: '' @ text))))))
       else
         io_bind (io_of (get responseData ''signature'')) (\<lambda>signature.
         if truthy signature then
           io_then (console_log [T ''Response received in '', Secs responseTime, T '' seconds''])
          (io_then (console_log [T ''Total execution time: '', Secs totalTime, T '' seconds''])
          (io_return signature))
         else
           io_bind (io_of (get responseData ''txid'')) (\<lambda>txid.
           if truthy txid then
             io_then (console_log [T ''Response received in '', Secs responseTime, T '' seconds''])
            (io_then (console_log [T ''Total execution time: '', Secs totalTime, T '' seconds''])
            (io_return txid))
           else
             io_bind (io_of (get responseData ''txSignature'')) (\<lambda>txSignature.
             if truthy txSignature then
               io_then (console_log [T ''Response received in '', Secs responseTime, T '' seconds''])
              (io_then (console_log [T ''Total execution time: '', Secs totalTime, T '' seconds''])
              (io_return txSignature))
             else
               io_then (console_error [T ''Unexpected response format after '', Secs responseTime,
                                       T '' seconds''])
              (io_throw (Error relay_format ''Unexpected response format from 0slot endpoint'')))))))"

text \<open>The body of the outer \<^verbatim>\<open>try\<close>.\<close>

definition executeSwapWithOSlot_try ::
  "('tx, 'conn) env \<Rightarrow> rat \<Rightarrow> js \<Rightarrow> ('tx \<Rightarrow> string + 'tx) \<Rightarrow> string \<Rightarrow> js io" where
  "executeSwapWithOSlot_try env totalStartTime transactionBase64 signTransaction endpoint =
     io_then (console_log [T ''Starting 0slot transaction execution...''])
    (io_bind (performance_now env) (\<lambda>prepareStartTime.
     io_bind (await (deserialize env transactionBase64)) (\<lambda>versionedTransaction.
     io_bind (await (signTransaction versionedTransaction)) (\<lambda>signedTransaction.
     io_bind (await (serialize env signedTransaction)) (\<lambda>bytes.
     let serializedTx = toBase64 env bytes in
     io_bind (elapsed env prepareStartTime) (\<lambda>prepareTime.
     io_then (console_log [T ''Transaction preparation took: '', Secs prepareTime, T '' seconds''])
    (io_bind (performance_now env) (\<lambda>requestStartTime.
     io_then (console_log [T ''Sending transaction to 0slot endpoint: '', T endpoint])
    (io_then (console_log [T ''Payload size: '',
                           Count (length (JSON_stringify env (payload serializedTx))), T '' bytes''])
    (io_bind (fetch env \<lparr>req_method = ''POST'', req_url = endpoint,
                         req_headers = [(''Content-Type'', ''application/json'')],
                         req_body = Some (JSON_stringify env (payload serializedTx))\<rparr>) (\<lambda>response.
     io_bind (elapsed env requestStartTime) (\<lambda>requestTime.
     io_then (console_log [T ''Request sent, waiting for response... ('', Secs requestTime,
                           T '' seconds)''])
    (io_bind (performance_now env) (\<lambda>responseStartTime.
     if status response \<noteq> 200 then
       io_bind (elapsed env responseStartTime) (\<lambda>responseTime.
       io_bind (elapsed env totalStartTime) (\<lambda>totalTime.
       io_then (console_error [T ''0slot request failed after '', Secs responseTime, T '' seconds''])
      (io_then (console_error [T ''Total execution time: '', Secs totalTime, T '' seconds''])
      (io_bind (io_of (ToString env (errorMessage response))) (\<lambda>message.
       io_throw (Error relay_status message))))))
     else
       io_bind (response_json response) (\<lambda>responseData.
       io_bind (elapsed env responseStartTime) (\<lambda>responseTime.
       io_bind (elapsed env totalStartTime) (\<lambda>totalTime.
       on_responseData env responseData responseTime totalTime)))))))))))))))))"

text \<open>
  The function: the clock is read, the body runs, and the handler of the outer \<^verbatim>\<open>try\<close>
  logs the error with the elapsed time and throws it again.
\<close>

definition executeSwapWithOSlot ::
  "('tx, 'conn) env \<Rightarrow> js \<Rightarrow> 'c \<Rightarrow> ('tx \<Rightarrow> string + 'tx) \<Rightarrow> string \<Rightarrow> js io" where
  "executeSwapWithOSlot env transactionBase64 connection signTransaction endpoint =
     io_bind (performance_now env) (\<lambda>totalStartTime.
     io_catch
       (executeSwapWithOSlot_try env totalStartTime transactionBase64 signTransaction endpoint)
       (\<lambda>error.
          io_bind (elapsed env totalStartTime) (\<lambda>totalTime.
          io_then (console_error [T ''0slot execution error after '', Secs totalTime,
                                  T '' seconds:'', E error])
         (io_throw error))))"

section \<open>executeSwapWithOSlot, raw broadcast through a Connection\<close>

text \<open>
  The second listing of \<^verbatim>\<open>oslot.js\<close> sends the signed bytes with
  \<^verbatim>\<open>Connection.sendRawTransaction\<close> and returns the string that call resolves to.
\<close>

definition executeSwapWithOSlot_2_try ::
  "('tx, 'conn) env \<Rightarrow> rat \<Rightarrow> js \<Rightarrow> ('tx \<Rightarrow> string + 'tx) \<Rightarrow> string \<Rightarrow> js io" where
  "executeSwapWithOSlot_2_try env totalStartTime transactionBase64 signTransaction endpoint =
     io_then (console_log [T ''Starting 0slot transaction execution...''])
    (io_bind (performance_now env) (\<lambda>prepareStartTime.
     io_bind (await (deserialize env transactionBase64)) (\<lambda>versionedTransaction.
     io_bind (await (signTransaction versionedTransaction)) (\<lambda>signedTransaction.
     io_bind (await (serialize env signedTransaction)) (\<lambda>serializedTx.
     io_bind (elapsed env prepareStartTime) (\<lambda>prepareTime.
     io_then (console_log [T ''Transaction preparation took: '', Secs prepareTime, T '' seconds''])
    (io_bind (await (new_Connection env endpoint ''confirmed'')) (\<lambda>oslotConnection.
     io_bind (performance_now env) (\<lambda>requestStartTime.
     io_then (console_log [T ''Sending transaction to 0slot endpoint: '', T endpoint])
    (io_then (console_log [T ''Transaction size: '', Count (length serializedTx), T '' bytes''])
    (io_bind (send_raw env oslotConnection serializedTx
                \<lparr>skipPreflight = True, maxRetries = 0\<rparr>) (\<lambda>signature.
     io_bind (elapsed env requestStartTime) (\<lambda>requestTime.
     io_bind (elapsed env totalStartTime) (\<lambda>totalTime.
     io_then (console_log [T ''Transaction sent in '', Secs requestTime, T '' seconds''])
    (io_then (console_log [T ''Total execution time: '', Secs totalTime, T '' seconds''])
    (io_then (console_log [T ''Transaction signature: '', T signature])
    (io_then (console_log [T ''It took '', Secs totalTime, T '' seconds to send transaction '',
                           T signature, T '' (ZeroSlot)''])
    (io_then (console_log
                [T ''Note: This is easy to optimize, you just have to be closer to 0slot server''])
    (io_return (Str signature))))))))))))))))))))"

definition executeSwapWithOSlot_2 ::
  "('tx, 'conn) env \<Rightarrow> js \<Rightarrow> 'c \<Rightarrow> ('tx \<Rightarrow> string + 'tx) \<Rightarrow> string \<Rightarrow> js io" where
  "executeSwapWithOSlot_2 env transactionBase64 connection signTransaction endpoint =
     io_bind (performance_now env) (\<lambda>totalStartTime.
     io_catch
       (executeSwapWithOSlot_2_try env totalStartTime transactionBase64 signTransaction endpoint)
       (\<lambda>error.
          io_bind (elapsed env totalStartTime) (\<lambda>totalTime.
          io_then (console_error [T ''0slot execution error after '', Secs totalTime,
                                  T '' seconds:'', E error])
         (io_throw error))))"

section \<open>fetchSwapTransaction\<close>

text \<open>
  The custom swap endpoint: a GET with query parameters, answered by \<^verbatim>\<open>{data: {swapData}}\<close>.
  The constructor of \<^verbatim>\<open>URLSearchParams\<close> converts the values of its argument to strings.
\<close>

definition custom_branch :: "('tx, 'conn) env \<Rightarrow> string \<Rightarrow> js \<Rightarrow> js \<Rightarrow> js io" where
  "custom_branch env swapEndpoint swapParams userPublicKey =
     io_bind (io_of (get swapParams ''inputMint'')) (\<lambda>inputMint.
     io_bind (io_of (get swapParams ''outputMint'')) (\<lambda>outputMint.
     io_bind (io_of (get swapParams ''amount'')) (\<lambda>amount.
     io_bind (io_of (toString env amount)) (\<lambda>amount_string.
     io_bind (io_of (get swapParams ''slippageBps'')) (\<lambda>slippageBps.
     io_bind (io_of (toString env (js_or slippageBps (Num 50)))) (\<lambda>slippage.
     io_bind (io_of (ToString env inputMint)) (\<lambda>tokenIn.
     io_bind (io_of (ToString env outputMint)) (\<lambda>tokenOut.
     io_bind (io_of (ToString env userPublicKey)) (\<lambda>sender.
     let queryParams = URLSearchParams env
           [(''tokenIn'', tokenIn),
            (''tokenOut'', tokenOut),
            (''amount'', amount_string),
            (''sender'', sender),
            (''slippage'', slippage)];
         url = swapEndpoint @ ''?'' @ queryParams
     in
     io_then (console_log [T ''Fetching swap from:'', T url])
    (io_bind (fetch env \<lparr>req_method = ''GET'', req_url = url,
                         req_headers = [(''Content-Type'', ''application/json'')],
                         req_body = None\<rparr>) (\<lambda>response.
     if \<not> ok response then
       io_throw (Error aggregator_http
         (''Failed to fetch swap transaction: '' @ statusText response @ '' - '' @ body_text response))
     else
       io_bind (response_json response) (\<lambda>responseData.
       io_bind (io_of (get responseData ''data'')) (\<lambda>data.
       io_bind (io_of (if truthy data then get data ''swapData'' else Inr data)) (\<lambda>swapData.
       if truthy swapData then
         io_bind (io_of (get data ''quote'')) (\<lambda>quote.
         io_bind (io_of (if quote = Undefined \<or> quote = Null then Inr Undefined
                         else get quote ''amountOut'')) (\<lambda>amountOut.
         io_bind (io_of (if quote = Undefined \<or> quote = Null then Inr Undefined
                         else get quote ''priceImpact'')) (\<lambda>priceImpact.
         io_then (console_log [T ''Swap quote info:'',
                               V (Obj [(''amountOut'', amountOut), (''priceImpact'', priceImpact)])])
        (io_return swapData))))
       else
         io_throw (Error aggregator_format
           ''Invalid response format from swap endpoint. Expected data.swapData'')))))))))))))))"

text \<open>The Jupiter v6 endpoint: a quote by GET, then the swap transaction by POST.\<close>

definition jupiter_branch :: "('tx, 'conn) env \<Rightarrow> string \<Rightarrow> js \<Rightarrow> js \<Rightarrow> js io" where
  "jupiter_branch env swapEndpoint swapParams userPublicKey =
     io_bind (io_of (get swapParams ''inputMint'')) (\<lambda>inputMint.
     io_bind (io_of (get swapParams ''outputMint'')) (\<lambda>outputMint.
     io_bind (io_of (get swapParams ''amount'')) (\<lambda>amount.
     io_bind (io_of (get swapParams ''slippageBps'')) (\<lambda>slippageBps_given.
     let slippageBps = js_or slippageBps_given (Num 50) in
     io_bind (io_of (toString env amount)) (\<lambda>amount_string.
     io_bind (io_of (toString env slippageBps)) (\<lambda>slippageBps_string.
     io_bind (io_of (ToString env inputMint)) (\<lambda>inputMint_string.
     io_bind (io_of (ToString env outputMint)) (\<lambda>outputMint_string.
     let quoteUrl = swapEndpoint @ ''?'' @ URLSearchParams env
           [(''inputMint'', inputMint_string),
            (''outputMint'', outputMint_string),
            (''amount'', amount_string),
            (''slippageBps'', slippageBps_string)]
     in
     io_bind (fetch env \<lparr>req_method = ''GET'', req_url = quoteUrl, req_headers = [],
                         req_body = None\<rparr>) (\<lambda>quoteResponse.
     if \<not> ok quoteResponse then
       io_throw (Error quote_http (''Failed to get quote: '' @ statusText quoteResponse))
     else
       io_bind (response_json quoteResponse) (\<lambda>quoteData.
       io_bind (fetch env
                  \<lparr>req_method = ''POST'', req_url = ''https://quote-api.jup.ag/v6/swap'',
                   req_headers = [(''Content-Type'', ''application/json'')],
                   req_body = Some (JSON_stringify env
                     (Obj [(''quoteResponse'', quoteData),
                           (''userPublicKey'', userPublicKey),
                           (''wrapAndUnwrapSol'', Bool True),
                           (''dynamicComputeUnitLimit'', Bool True),
                           (''prioritizationFeeLamports'', Str ''auto'')]))\<rparr>) (\<lambda>swapResponse.
       if \<not> ok swapResponse then
         io_throw (Error swap_http (''Failed to get swap transaction: '' @ body_text swapResponse))
       else
         io_bind (response_json swapResponse) (\<lambda>swapData.
         io_bind (io_of (get swapData ''swapTransaction'')) (\<lambda>swapTransaction.
         if truthy swapTransaction then io_return swapTransaction
         else io_throw (Error swap_format
                ''Invalid response format from Jupiter swap API''))))))))))))))"

text \<open>The direct transaction endpoint (legacy format): the swap parameters by POST.\<close>

definition legacy_branch :: "('tx, 'conn) env \<Rightarrow> string \<Rightarrow> js \<Rightarrow> js io" where
  "legacy_branch env swapEndpoint swapParams =
     io_bind (fetch env \<lparr>req_method = ''POST'', req_url = swapEndpoint,
                         req_headers = [(''Content-Type'', ''application/json'')],
                         req_body = Some (JSON_stringify env swapParams)\<rparr>) (\<lambda>response.
     if \<not> ok response then
       io_throw (Error legacy_http (''Failed to fetch swap transaction: '' @ statusText response))
     else
       io_bind (response_json response) (\<lambda>data.
       io_bind (io_of (get data ''transaction'')) (\<lambda>transaction.
       if truthy transaction then io_return transaction
       else
         io_bind (io_of (get data ''swapTransaction'')) (\<lambda>swapTransaction.
         if truthy swapTransaction then io_return swapTransaction
         else
           io_bind (io_of (get data ''tx'')) (\<lambda>tx.
           if truthy tx then io_return tx
           else io_throw (Error legacy_format ''Invalid response format from swap endpoint''))))))"

text \<open>
  The function. The two listings of \<^verbatim>\<open>oslot.js\<close> differ in the second marker of the custom
  endpoint only (\<^verbatim>\<open>localhost:4000\<close> in the first, \<^verbatim>\<open>metaagg.velvetdao.xyz\<close> in the second), which
  is the parameter \<open>host\<close> here.
\<close>

definition fetchSwapTransaction_try ::
  "string \<Rightarrow> ('tx, 'conn) env \<Rightarrow> string \<Rightarrow> js \<Rightarrow> js \<Rightarrow> js io" where
  "fetchSwapTransaction_try host env swapEndpoint swapParams userPublicKey =
     (if includes_str swapEndpoint ''route/solana/swap'' \<or> includes_str swapEndpoint host then
        custom_branch env swapEndpoint swapParams userPublicKey
      else if includes_str swapEndpoint ''quote-api.jup.ag'' \<or> includes_str swapEndpoint ''/quote''
      then jupiter_branch env swapEndpoint swapParams userPublicKey
      else legacy_branch env swapEndpoint swapParams)"

definition fetchSwapTransaction_with ::
  "string \<Rightarrow> ('tx, 'conn) env \<Rightarrow> string \<Rightarrow> js \<Rightarrow> js \<Rightarrow> js io" where
  "fetchSwapTransaction_with host env swapEndpoint swapParams userPublicKey =
     io_catch
       (fetchSwapTransaction_try host env swapEndpoint swapParams userPublicKey)
       (\<lambda>error.
          io_then (console_error [T ''Error fetching swap transaction:'', E error])
         (io_throw error))"

definition fetchSwapTransaction ::
  "('tx, 'conn) env \<Rightarrow> string \<Rightarrow> js \<Rightarrow> js \<Rightarrow> js io" where
  "fetchSwapTransaction = fetchSwapTransaction_with ''localhost:4000''"

definition fetchSwapTransaction_2 ::
  "('tx, 'conn) env \<Rightarrow> string \<Rightarrow> js \<Rightarrow> js \<Rightarrow> js io" where
  "fetchSwapTransaction_2 = fetchSwapTransaction_with ''metaagg.velvetdao.xyz''"

section \<open>The vocabulary of the specification\<close>

text \<open>
  The source throws plain \<^verbatim>\<open>Error\<close> objects. The specification names the failures by
  kind; \<open>kind_of\<close> assigns each \<^verbatim>\<open>throw\<close> statement of the source the kind the specification
  describes it by. \<open>MalformedTransaction\<close> has no \<^verbatim>\<open>throw\<close> statement of its own: a failed
  decoding is whatever the transaction library raised.
\<close>

datatype kind =
    MalformedTransaction
  | InvalidResponseShape
  | FetchError
  | RelayRejected
  | UnrecognizedResponse

fun kind_of :: "site \<Rightarrow> kind" where
  "kind_of relay_status = RelayRejected"
| "kind_of relay_error = RelayRejected"
| "kind_of relay_format = UnrecognizedResponse"
| "kind_of aggregator_http = FetchError"
| "kind_of aggregator_format = InvalidResponseShape"
| "kind_of quote_http = FetchError"
| "kind_of swap_http = FetchError"
| "kind_of swap_format = InvalidResponseShape"
| "kind_of legacy_http = FetchError"
| "kind_of legacy_format = InvalidResponseShape"

fun failure_kind :: "exn \<Rightarrow> kind option" where
  "failure_kind (Error s msg) = Some (kind_of s)"
| "failure_kind e = None"

text \<open>A field is present when the object has the key, whatever its value.\<close>

fun present :: "js \<Rightarrow> string \<Rightarrow> bool" where
  "present (Obj fs) k = (map_of fs k \<noteq> None)"
| "present v k = False"

text \<open>The value of a field, \<^verbatim>\<open>undefined\<close> when there is none.\<close>

definition field :: "js \<Rightarrow> string \<Rightarrow> js" where
  "field v k = (case get v k of Inl e \<Rightarrow> Undefined | Inr x \<Rightarrow> x)"

text \<open>An object without the key \<open>k\<close>.\<close>

definition without :: "string \<Rightarrow> (string \<times> js) list \<Rightarrow> (string \<times> js) list" where
  "without k fs = filter (\<lambda>p. fst p \<noteq> k) fs"

text \<open>
  The normalisation of a 200 response of the relay as the specification words it, by the
  presence of the fields.
\<close>

definition normalize_by_presence :: "js \<Rightarrow> kind + js" where
  "normalize_by_presence r =
     (if present r ''result'' then Inr (field r ''result'')
      else if present r ''error'' then Inl RelayRejected
      else if present r ''signature'' then Inr (field r ''signature'')
      else if present r ''txid'' then Inr (field r ''txid'')
      else if present r ''txSignature'' then Inr (field r ''txSignature'')
      else Inl UnrecognizedResponse)"

text \<open>The outcome of a call as the specification sees it: a value or a kind of failure.\<close>

definition outcome :: "(exn + js) \<times> world \<Rightarrow> kind option + js" where
  "outcome r = (case fst r of Inl e \<Rightarrow> Inl (failure_kind e) | Inr v \<Rightarrow> Inr v)"

text \<open>
  The signed bytes a submission gets to send, when decoding, signing and serialising all
  succeed, and the response of the relay to the request the JSON-RPC listing sends then.
\<close>

definition signed_bytes ::
  "('tx, 'conn) env \<Rightarrow> js \<Rightarrow> ('tx \<Rightarrow> string + 'tx) \<Rightarrow> nat list option" where
  "signed_bytes env transactionBase64 signTransaction =
     (case deserialize env transactionBase64 of
        Inl d \<Rightarrow> None
      | Inr versionedTransaction \<Rightarrow>
          (case signTransaction versionedTransaction of
             Inl d \<Rightarrow> None
           | Inr signedTransaction \<Rightarrow>
               (case serialize env signedTransaction of Inl d \<Rightarrow> None | Inr bytes \<Rightarrow> Some bytes)))"

definition relay_request :: "('tx, 'conn) env \<Rightarrow> string \<Rightarrow> nat list \<Rightarrow> request" where
  "relay_request env endpoint bytes =
     \<lparr>req_method = ''POST'', req_url = endpoint,
      req_headers = [(''Content-Type'', ''application/json'')],
      req_body = Some (JSON_stringify env (payload (toBase64 env bytes)))\<rparr>"

definition relay_reply ::
  "('tx, 'conn) env \<Rightarrow> js \<Rightarrow> ('tx \<Rightarrow> string + 'tx) \<Rightarrow> string \<Rightarrow> response option" where
  "relay_reply env transactionBase64 signTransaction endpoint =
     (case signed_bytes env transactionBase64 signTransaction of
        None \<Rightarrow> None
      | Some bytes \<Rightarrow>
          (case http env (relay_request env endpoint bytes) of
             Inl d \<Rightarrow> None
           | Inr response \<Rightarrow> Some response))"

text \<open>
  The message of the failure on a status other than 200 as the specification words it: the
  relay's \<^verbatim>\<open>error.message\<close> or \<^verbatim>\<open>error.code\<close> when the JSON body has one, otherwise the generic
  message with the raw body text appended.
\<close>

definition message_by_spec :: "(rat \<Rightarrow> string) \<Rightarrow> response \<Rightarrow> string" where
  "message_by_spec pr response =
     (let generic = ''0slot execution failed: incorrect status code: '' @ show_nat (status response);
          appended = generic @ '', '' @ body_text response
      in case body_json response of
           None \<Rightarrow> appended
         | Some errorData \<Rightarrow>
             if truthy (field (field errorData ''error'') ''message'')
             then to_string pr (field (field errorData ''error'') ''message'')
             else if truthy (field (field errorData ''error'') ''code'')
             then to_string pr (field (field errorData ''error'') ''code'')
             else appended)"

text \<open>The markers of the endpoint that select the provider.\<close>

definition aggregator_marker :: "string \<Rightarrow> string \<Rightarrow> bool" where
  "aggregator_marker host endpoint =
     (includes_str endpoint ''route/solana/swap'' \<or> includes_str endpoint host)"

definition quote_marker :: "string \<Rightarrow> bool" where
  "quote_marker endpoint =
     (includes_str endpoint ''quote-api.jup.ag'' \<or> includes_str endpoint ''/quote'')"

text \<open>
  A well-formed answer of a legacy provider: it has one of the three fields, and none of
  them is there with a falsy value (an empty string, \<^verbatim>\<open>null\<close>, \<^verbatim>\<open>false\<close>, \<open>0\<close>).
\<close>

definition well_formed_legacy :: "js \<Rightarrow> bool" where
  "well_formed_legacy data =
     ((present data ''transaction'' \<or> present data ''swapTransaction'' \<or> present data ''tx'')
      \<and> (\<forall>k \<in> set [''transaction'', ''swapTransaction'', ''tx''].
            present data k \<longrightarrow> truthy (field data k)))"

text \<open>The handler of the outer \<^verbatim>\<open>try\<close> of \<^verbatim>\<open>fetchSwapTransaction\<close>, around a branch.\<close>

definition logging_errors :: "'a io \<Rightarrow> 'a io" where
  "logging_errors m =
     io_catch m (\<lambda>error.
       io_then (console_error [T ''Error fetching swap transaction:'', E error]) (io_throw error))"

text \<open>Swap parameters and a payer to run the examples with.\<close>

definition params0 :: js where
  "params0 = Obj [(''inputMint'', Str ''So11''), (''outputMint'', Str ''EPjF''),
                  (''amount'', Num 1000), (''slippageBps'', Num 0)]"

definition payer0 :: js where
  "payer0 = Str ''payer''"

text \<open>A network that answers a GET with one response and any other request with another.\<close>

definition by_method :: "response \<Rightarrow> response \<Rightarrow> request \<Rightarrow> string + response" where
  "by_method a b req = (if req_method req = ''GET'' then Inr a else Inr b)"

text \<open>
  The parameters of the JSON-RPC call as the specification lists them, and an action that
  sends nothing: it leaves the requests and the broadcasts of the world as they were.
\<close>

definition params_by_spec :: "string \<Rightarrow> js" where
  "params_by_spec serializedTx =
     Arr [Str serializedTx,
          Obj [(''encoding'', Str ''base64''),
               (''skipPreflight'', Bool True),
               (''preflightCommitment'', Str ''processed''),
               (''maxRetries'', Num 0)]]"

definition silent :: "'a io \<Rightarrow> bool" where
  "silent m = (\<forall>w. sent (snd (m w)) = sent w \<and> broadcasts (snd (m w)) = broadcasts w)"

text \<open>An action that only adds to the requests sent.\<close>

definition appends :: "'a io \<Rightarrow> bool" where
  "appends m = (\<forall>w. \<exists>rest. sent (snd (m w)) = sent w @ rest)"

text \<open>A wallet whose user declines to sign.\<close>

definition stub_reject :: "string \<Rightarrow> string + string" where
  "stub_reject t = Inl ''User rejected the request''"

text \<open>An action whose value, when it returns one, satisfies \<open>P\<close>.\<close>

definition yields :: "('a \<Rightarrow> bool) \<Rightarrow> 'a io \<Rightarrow> bool" where
  "yields P m = (\<forall>w v. fst (m w) = Inr v \<longrightarrow> P v)"

text \<open>
  The result of the two submissions as functions of what the collaborators return, the
  console and the clock left aside: of the branch on the parsed body of a 200 answer, of
  the first listing, and of the second.
\<close>

definition relay_result :: "('tx, 'conn) env \<Rightarrow> js \<Rightarrow> exn + js" where
  "relay_result env r =
     (if nullish r then Inl TypeError
      else if truthy (field r ''result'') then
        (if unprintable (field r ''result'') then Inl TypeError else Inr (field r ''result''))
      else if truthy (field r ''error'') then
        (let shown = js_or (field (field r ''error'') ''message'')
                           (Str (JSON_stringify env (field r ''error'')))
         in if unprintable shown then Inl TypeError
            else Inl (Error relay_error
                   (''0slot error: '' @ to_string (Number_toString env) shown)))
      else if truthy (field r ''signature'') then Inr (field r ''signature'')
      else if truthy (field r ''txid'') then Inr (field r ''txid'')
      else if truthy (field r ''txSignature'') then Inr (field r ''txSignature'')
      else Inl (Error relay_format ''Unexpected response format from 0slot endpoint''))"

definition submission_result ::
  "('tx, 'conn) env \<Rightarrow> js \<Rightarrow> ('tx \<Rightarrow> string + 'tx) \<Rightarrow> string \<Rightarrow> exn + js" where
  "submission_result env transactionBase64 signTransaction endpoint =
     (case deserialize env transactionBase64 of
        Inl d \<Rightarrow> Inl (Foreign d)
      | Inr versionedTransaction \<Rightarrow>
     (case signTransaction versionedTransaction of
        Inl d \<Rightarrow> Inl (Foreign d)
      | Inr signedTransaction \<Rightarrow>
     (case serialize env signedTransaction of
        Inl d \<Rightarrow> Inl (Foreign d)
      | Inr bytes \<Rightarrow>
     (case http env (relay_request env endpoint bytes) of
        Inl d \<Rightarrow> Inl (Foreign d)
      | Inr response \<Rightarrow>
          if status response \<noteq> 200 then
            (if unprintable (errorMessage response) then Inl TypeError
             else Inl (Error relay_status
                    (to_string (Number_toString env) (errorMessage response))))
          else
            (case body_json response of
               None \<Rightarrow> Inl SyntaxError
             | Some responseData \<Rightarrow> relay_result env responseData)))))"

definition submission_result_2 ::
  "('tx, 'conn) env \<Rightarrow> js \<Rightarrow> ('tx \<Rightarrow> string + 'tx) \<Rightarrow> string \<Rightarrow> exn + js" where
  "submission_result_2 env transactionBase64 signTransaction endpoint =
     (case deserialize env transactionBase64 of
        Inl d \<Rightarrow> Inl (Foreign d)
      | Inr versionedTransaction \<Rightarrow>
     (case signTransaction versionedTransaction of
        Inl d \<Rightarrow> Inl (Foreign d)
      | Inr signedTransaction \<Rightarrow>
     (case serialize env signedTransaction of
        Inl d \<Rightarrow> Inl (Foreign d)
      | Inr bytes \<Rightarrow>
     (case new_Connection env endpoint ''confirmed'' of
        Inl d \<Rightarrow> Inl (Foreign d)
      | Inr oslotConnection \<Rightarrow>
     (case sendRawTransaction env oslotConnection bytes
             \<lparr>skipPreflight = True, maxRetries = 0\<rparr> of
        Inl d \<Rightarrow> Inl (Foreign d)
      | Inr signature \<Rightarrow> Inr (Str signature))))))"

text \<open>
  The swap parameters that the query string is built from have a string each: none of them
  is an object with a member \<^verbatim>\<open>toString\<close> of its own.
\<close>

definition printable_params :: "js \<Rightarrow> bool" where
  "printable_params swapParams =
     (\<not> unprintable (field swapParams ''inputMint'')
    \<and> \<not> unprintable (field swapParams ''outputMint'')
    \<and> \<not> unprintable (field swapParams ''amount'')
    \<and> \<not> unprintable (field swapParams ''slippageBps''))"

section \<open>A concrete environment\<close>

text \<open>
  An environment to run the functions in: transactions are strings, signing appends a
  signature, the clock advances by one millisecond a reading, and the network is the
  function \<open>net\<close>. The examples print safe integers only, so the printing of the other
  numbers is a fixed text.
\<close>

text \<open>
  A plain rendering of JSON text for the examples, whose strings need no escapes and whose
  numbers are integers.
\<close>

fun render :: "js \<Rightarrow> string" where
  \<open>render Undefined = ''undefined''\<close>
| \<open>render Null = ''null''\<close>
| \<open>render (Bool b) = (if b then ''true'' else ''false'')\<close>
| \<open>render (Num q) = show_int \<lfloor>q\<rfloor>\<close>
| \<open>render NaN = ''null''\<close>
| \<open>render PosInfinity = ''null''\<close>
| \<open>render NegInfinity = ''null''\<close>
| \<open>render (Str s) = ''"'' @ s @ ''"''\<close>
| \<open>render (Arr xs) = ''['' @ join_comma (map render xs) @ '']''\<close>
| \<open>render (Obj fs) =
     ''{'' @ join_comma (map (\<lambda>p. ''"'' @ fst p @ ''":'' @ render (snd p)) fs) @ ''}''\<close>

fun query_string :: "(string \<times> string) list \<Rightarrow> string" where
  "query_string [] = []"
| "query_string [(k, v)] = k @ ''='' @ v"
| "query_string ((k, v) # p # ps) = k @ ''='' @ v @ ''&'' @ query_string (p # ps)"

definition stub_env :: "(request \<Rightarrow> string + response) \<Rightarrow> (string, unit) env" where
  "stub_env net =
     \<lparr>now = (\<lambda>k. of_nat k),
      deserialize = (\<lambda>v. case v of Str s \<Rightarrow> Inr s | _ \<Rightarrow> Inl ''not a base64 string''),
      serialize = (\<lambda>t. Inr (map of_char t)),
      toBase64 = (\<lambda>bs. ''c2lnbmVk''),
      JSON_stringify = render,
      Number_toString = (\<lambda>q. ''0.5''),
      URLSearchParams = query_string,
      http = net,
      new_Connection = (\<lambda>url commitment. Inr ()),
      sendRawTransaction = (\<lambda>c bs opts. Inr ''sig1'')\<rparr>"

definition stub_sign :: "string \<Rightarrow> string + string" where
  "stub_sign t = Inr (t @ ''+signed'')"

definition world0 :: world where
  "world0 = \<lparr>tick = 0, console = [], sent = [], broadcasts = []\<rparr>"

definition reply :: "nat \<Rightarrow> string \<Rightarrow> string \<Rightarrow> js option \<Rightarrow> request \<Rightarrow> string + response" where
  "reply code reason txt parsed req =
     Inr \<lparr>status = code, statusText = reason, body_text = txt, body_json = parsed\<rparr>"

section \<open>Properties\<close>

named_theorems io_defs

lemmas [io_defs] =
  io_return_def io_throw_def io_bind_def io_then_def io_catch_def io_of_def await_def
  performance_now_def console_log_def console_error_def fetch_def send_raw_def response_json_def
  elapsed_def

lemma includes_str_sublist: "includes_str s t \<longleftrightarrow> sublist t s"
  by (induction s) (auto simp: sublist_Cons_right)

subsection \<open>Running the steps\<close>

lemma io_bind_return: "io_bind (io_return x) f = f x"
  by (rule ext) (simp add: io_bind_def io_return_def)

lemma io_bind_throw: "io_bind (io_throw e) f = io_throw e"
  by (rule ext) (simp add: io_bind_def io_throw_def)

lemma io_bind_of_Inr: "io_bind (io_of (Inr x)) f = f x"
  by (rule ext) (simp add: io_bind_def io_of_def)

lemma io_bind_of_Inl: "io_bind (io_of (Inl e)) f = io_throw e"
  by (rule ext) (simp add: io_bind_def io_of_def io_throw_def)

lemma io_bind_await_Inr: "io_bind (await (Inr x)) f = f x"
  by (rule ext) (simp add: io_bind_def await_def)

lemma io_bind_await_Inl: "io_bind (await (Inl d)) f = io_throw (Foreign d)"
  by (rule ext) (simp add: io_bind_def await_def io_throw_def)

lemma io_then_log:
  "io_then (console_log ps) k w = k (w\<lparr>console := console w @ [(Log, ps)]\<rparr>)"
  by (simp add: io_then_def io_bind_def console_log_def)

lemma io_then_err:
  "io_then (console_error ps) k w = k (w\<lparr>console := console w @ [(Err, ps)]\<rparr>)"
  by (simp add: io_then_def io_bind_def console_error_def)

lemma io_bind_now:
  "io_bind (performance_now env) f w = f (now env (tick w)) (w\<lparr>tick := Suc (tick w)\<rparr>)"
  by (simp add: io_bind_def performance_now_def)

lemma io_bind_elapsed:
  "io_bind (elapsed env s) f w =
     f ((now env (tick w) - s) / 1000) (w\<lparr>tick := Suc (tick w)\<rparr>)"
  by (simp add: io_bind_def performance_now_def elapsed_def io_return_def)

lemma io_bind_fetch:
  "io_bind (fetch env req) f w =
     (case http env req of
        Inl d \<Rightarrow> (Inl (Foreign d), w\<lparr>sent := sent w @ [req]\<rparr>)
      | Inr r \<Rightarrow> f r (w\<lparr>sent := sent w @ [req]\<rparr>))"
  by (simp add: io_bind_def fetch_def split: sum.splits)

lemma io_bind_send_raw:
  "io_bind (send_raw env c bytes opts) f w =
     (case sendRawTransaction env c bytes opts of
        Inl d \<Rightarrow> (Inl (Foreign d), w\<lparr>broadcasts := broadcasts w @ [(bytes, opts)]\<rparr>)
      | Inr v \<Rightarrow> f v (w\<lparr>broadcasts := broadcasts w @ [(bytes, opts)]\<rparr>))"
  by (simp add: io_bind_def send_raw_def split: sum.splits)

lemma io_bind_json:
  "io_bind (response_json r) f =
     (case body_json r of None \<Rightarrow> io_throw SyntaxError | Some v \<Rightarrow> f v)"
  by (simp add: response_json_def io_bind_return io_bind_throw split: option.splits)

lemma fst_return: "fst (io_return x w) = Inr x"
  by (simp add: io_return_def)

lemma fst_throw: "fst (io_throw e w) = Inl e"
  by (simp add: io_throw_def)

lemmas io_steps =
  io_bind_return io_bind_throw io_bind_of_Inr io_bind_of_Inl io_bind_await_Inr io_bind_await_Inl
  io_then_log io_then_err io_bind_now io_bind_elapsed io_bind_fetch io_bind_send_raw io_bind_json
  fst_return fst_throw

lemma get_field: "\<not> nullish r \<Longrightarrow> get r k = Inr (field r k)"
  by (cases r) (simp_all add: field_def nullish_def)

lemma get_nullish: "nullish r \<Longrightarrow> get r k = Inl TypeError"
  by (auto simp: nullish_def)

lemma truthy_not_nullish: "truthy v \<Longrightarrow> \<not> nullish v"
  by (auto simp: nullish_def)

lemma fst_rethrow:
  "fst (io_catch m (\<lambda>error. io_bind (elapsed env t0) (\<lambda>totalTime.
          io_then (console_error (ps totalTime error)) (io_throw error))) w) = fst (m w)"
  by (simp add: io_catch_def io_steps split: prod.splits sum.splits)

lemma fst_bind_of:
  "fst (io_bind (io_of r) f w) = (case r of Inl e \<Rightarrow> Inl e | Inr x \<Rightarrow> fst (f x w))"
  by (cases r) (simp_all add: io_bind_of_Inl io_bind_of_Inr fst_throw)

subsection \<open>The result of a submission\<close>

lemma fst_on_responseData: "fst (on_responseData env r rt tt w) = relay_result env r"
proof (cases "nullish r")
  case True
  then show ?thesis
    unfolding on_responseData_def relay_result_def by (simp add: get_nullish io_steps)
next
  case False
  then show ?thesis
    unfolding on_responseData_def relay_result_def
    by (simp add: get_field [OF False] get_field [OF truthy_not_nullish] io_steps ToString_def
        Let_def)
qed

lemma fst_executeSwapWithOSlot_try:
  "fst (executeSwapWithOSlot_try env t0 b64 sign e w) = submission_result env b64 sign e"
proof (cases "deserialize env b64")
  case (Inl d)
  then show ?thesis
    unfolding executeSwapWithOSlot_try_def submission_result_def by (simp add: io_steps)
next
  case tx: (Inr tx)
  show ?thesis
  proof (cases "sign tx")
    case (Inl d)
    with tx show ?thesis
      unfolding executeSwapWithOSlot_try_def submission_result_def by (simp add: io_steps)
  next
    case stx: (Inr stx)
    show ?thesis
    proof (cases "serialize env stx")
      case (Inl d)
      with tx stx show ?thesis
        unfolding executeSwapWithOSlot_try_def submission_result_def by (simp add: io_steps)
    next
      case bytes: (Inr bytes)
      show ?thesis
      proof (cases "http env (relay_request env e bytes)")
        case (Inl d)
        with tx stx bytes show ?thesis
          unfolding executeSwapWithOSlot_try_def submission_result_def relay_request_def
          by (simp add: io_steps Let_def)
      next
        case (Inr response)
        show ?thesis
        proof (cases "body_json response")
          case None
          with tx stx bytes Inr show ?thesis
            unfolding executeSwapWithOSlot_try_def submission_result_def relay_request_def
            by (simp add: io_steps Let_def ToString_def)
        next
          case (Some r)
          with tx stx bytes Inr show ?thesis
            unfolding executeSwapWithOSlot_try_def submission_result_def relay_request_def
            by (simp add: io_steps Let_def ToString_def fst_on_responseData)
        qed
      qed
    qed
  qed
qed

lemma fst_executeSwapWithOSlot:
  "fst (executeSwapWithOSlot env b64 c sign e w) = submission_result env b64 sign e"
  unfolding executeSwapWithOSlot_def
  by (simp add: io_bind_now fst_rethrow fst_executeSwapWithOSlot_try)

lemma fst_executeSwapWithOSlot_2_try:
  "fst (executeSwapWithOSlot_2_try env t0 b64 sign e w) = submission_result_2 env b64 sign e"
  unfolding executeSwapWithOSlot_2_try_def submission_result_2_def
  by (cases "deserialize env b64"; simp add: io_steps)
     (auto simp: io_steps split: sum.splits)

lemma fst_executeSwapWithOSlot_2:
  "fst (executeSwapWithOSlot_2 env b64 c sign e w) = submission_result_2 env b64 sign e"
  unfolding executeSwapWithOSlot_2_def
  by (simp add: io_bind_now fst_rethrow fst_executeSwapWithOSlot_2_try)

lemma relay_replyD:
  assumes "relay_reply env b64 sign endpoint = Some resp"
  obtains tx stx bytes where "deserialize env b64 = Inr tx" "sign tx = Inr stx"
    "serialize env stx = Inr bytes" "http env (relay_request env endpoint bytes) = Inr resp"
  using assms
  by (auto simp: relay_reply_def signed_bytes_def split: sum.splits option.splits)

lemma submission_result_reply:
  assumes "relay_reply env b64 sign e = Some response"
  shows "submission_result env b64 sign e =
    (if status response \<noteq> 200 then
       (if unprintable (errorMessage response) then Inl TypeError
        else Inl (Error relay_status (to_string (Number_toString env) (errorMessage response))))
     else (case body_json response of
             None \<Rightarrow> Inl SyntaxError
           | Some responseData \<Rightarrow> relay_result env responseData))"
  using assms by (elim relay_replyD) (simp add: submission_result_def)

lemma relay_200:
  assumes "relay_reply env b64 sign e = Some response"
    and "status response = 200" and "body_json response = Some r"
  shows "fst (executeSwapWithOSlot env b64 c sign e w) = relay_result env r"
  by (simp add: fst_executeSwapWithOSlot submission_result_reply [OF assms(1)] assms(2,3))

lemmas stub_defs = stub_env_def stub_sign_def world0_def reply_def

subsection \<open>The relay's answer with status 200\<close>

text \<open>
  C1, as amended. When the relay answers 200 with a JSON body other than \<^verbatim>\<open>null\<close>, whose
  \<^verbatim>\<open>result\<close> and \<^verbatim>\<open>error.message\<close> have a string where the code prints them, the submission
  decides in this order, each test being the truthiness of the field's value: \<^verbatim>\<open>result\<close>
  gives success with that value; else \<^verbatim>\<open>error\<close> gives a RelayRejected failure; else the
  first truthy one of \<^verbatim>\<open>signature\<close>, \<^verbatim>\<open>txid\<close>, \<^verbatim>\<open>txSignature\<close> is returned; else the failure is
  UnrecognizedResponse.
\<close>

theorem relay_200_by_truthiness:
  assumes "relay_reply env transactionBase64 signTransaction endpoint = Some response"
    and "status response = 200"
    and "body_json response = Some r"
    and "\<not> nullish r"
    and "\<not> unprintable (field r ''result'')"
    and "\<not> unprintable (field (field r ''error'') ''message'')"
  shows "outcome (executeSwapWithOSlot env transactionBase64 connection signTransaction endpoint w) =
    (if truthy (field r ''result'') then Inr (field r ''result'')
     else if truthy (field r ''error'') then Inl (Some RelayRejected)
     else if truthy (field r ''signature'') then Inr (field r ''signature'')
     else if truthy (field r ''txid'') then Inr (field r ''txid'')
     else if truthy (field r ''txSignature'') then Inr (field r ''txSignature'')
     else Inl (Some UnrecognizedResponse))"
  unfolding outcome_def relay_200 [OF assms(1-3)] relay_result_def
  using assms(4-6) by (simp add: Let_def js_or_def)

theorem relay_200_by_truthiness_witness:
  \<open>relay_reply (stub_env (reply 200 ''OK'' ''{"txid":"sig9","txSignature":"sig7"}''
        (Some (Obj [(''txid'', Str ''sig9''), (''txSignature'', Str ''sig7'')]))))
      (Str ''dHg='') stub_sign ''https://relay.example''
    = Some \<lparr>status = 200, statusText = ''OK'',
            body_text = ''{"txid":"sig9","txSignature":"sig7"}'',
            body_json = Some (Obj [(''txid'', Str ''sig9''), (''txSignature'', Str ''sig7'')])\<rparr>
   \<and> \<not> nullish (Obj [(''txid'', Str ''sig9''), (''txSignature'', Str ''sig7'')])
   \<and> \<not> unprintable (field (Obj [(''txid'', Str ''sig9''), (''txSignature'', Str ''sig7'')])
                      ''result'')
   \<and> outcome (executeSwapWithOSlot
        (stub_env (reply 200 ''OK'' ''{"txid":"sig9","txSignature":"sig7"}''
           (Some (Obj [(''txid'', Str ''sig9''), (''txSignature'', Str ''sig7'')]))))
        (Str ''dHg='') () stub_sign ''https://relay.example'' world0) = Inr (Str ''sig9'')\<close>
  using relay_200_by_truthiness
    [of \<open>stub_env (reply 200 ''OK'' ''{"txid":"sig9","txSignature":"sig7"}''
           (Some (Obj [(''txid'', Str ''sig9''), (''txSignature'', Str ''sig7'')])))\<close>
        "Str ''dHg=''" stub_sign "''https://relay.example''"
        \<open>\<lparr>status = 200, statusText = ''OK'',
            body_text = ''{"txid":"sig9","txSignature":"sig7"}'',
            body_json = Some (Obj [(''txid'', Str ''sig9''), (''txSignature'', Str ''sig7'')])\<rparr>\<close>
        "Obj [(''txid'', Str ''sig9''), (''txSignature'', Str ''sig7'')]" "()" world0]
  by (simp add: relay_reply_def signed_bytes_def relay_request_def stub_defs nullish_def field_def)

text \<open>
  C1 as stated fails: the relay answers 200 with \<^verbatim>\<open>{"result":""}\<close>. The field \<^verbatim>\<open>result\<close> is
  present, so the claim has the submission succeed with the empty string; the code fails
  with the unexpected-format error.
\<close>

theorem relay_200_by_presence_counterexample:
  \<open>outcome (executeSwapWithOSlot
      (stub_env (reply 200 ''OK'' ''{"result":""}'' (Some (Obj [(''result'', Str '''')]))))
      (Str ''dHg='') () stub_sign ''https://relay.example'' world0)
     = Inl (Some UnrecognizedResponse)
   \<and> normalize_by_presence (Obj [(''result'', Str '''')]) = Inr (Str '''')\<close>
  by (simp add: outcome_def executeSwapWithOSlot_def executeSwapWithOSlot_try_def
      on_responseData_def io_defs stub_defs Let_def normalize_by_presence_def field_def)

subsection \<open>The relay's answer with another status\<close>

lemma errorMessage_cases:
  "errorMessage response =
     (let generic = ''0slot execution failed: incorrect status code: '' @ show_nat (status response);
          appended = (if body_text response = [] then generic
                      else generic @ '', '' @ body_text response)
      in case body_json response of
           None \<Rightarrow> Str appended
         | Some errorData \<Rightarrow>
             if nullish errorData then Str appended
             else if truthy (field errorData ''error'') then
               js_or (field (field errorData ''error'') ''message'')
                 (js_or (field (field errorData ''error'') ''code'') (Str generic))
             else if truthy (field errorData ''message'') then field errorData ''message''
             else Str generic)"
proof (cases "body_json response")
  case None
  then show ?thesis by (simp add: errorMessage_def errorMessage_try_def Let_def)
next
  case (Some errorData)
  show ?thesis
  proof (cases "nullish errorData")
    case True
    with Some show ?thesis
      by (simp add: errorMessage_def errorMessage_try_def Let_def get_nullish)
  next
    case False
    with Some show ?thesis
      by (simp add: errorMessage_def errorMessage_try_def Let_def get_field [OF False]
          get_field [OF truthy_not_nullish])
  qed
qed

lemma relay_other_status:
  assumes "relay_reply env b64 sign e = Some response" and "status response \<noteq> 200"
  shows "fst (executeSwapWithOSlot env b64 c sign e w) =
    (if unprintable (errorMessage response) then Inl TypeError
     else Inl (Error relay_status (to_string (Number_toString env) (errorMessage response))))"
  by (simp add: fst_executeSwapWithOSlot submission_result_reply [OF assms(1)] assms(2))

text \<open>
  C3, as amended. On a status other than 200 the submission fails with a RelayRejected
  error, provided the value it takes for the message has a string. Its message: when the
  body is JSON (and not \<^verbatim>\<open>null\<close>) with a truthy \<^verbatim>\<open>error\<close>, it is \<^verbatim>\<open>error.message\<close>, else
  \<^verbatim>\<open>error.code\<close>, else the generic message; with no truthy \<^verbatim>\<open>error\<close> but a truthy top-level
  \<^verbatim>\<open>message\<close>, it is that message; with neither, the generic message alone. The raw body
  text is appended to the generic message only when the body is not JSON (or is \<^verbatim>\<open>null\<close>)
  and the text is not empty.
\<close>

theorem relay_other_status_message:
  assumes "relay_reply env transactionBase64 signTransaction endpoint = Some response"
    and "status response \<noteq> 200"
    and "\<And>errorData. body_json response = Some errorData \<Longrightarrow>
           \<not> unprintable (field (field errorData ''error'') ''message'')
         \<and> \<not> unprintable (field (field errorData ''error'') ''code'')
         \<and> \<not> unprintable (field errorData ''message'')"
  shows "fst (executeSwapWithOSlot env transactionBase64 connection signTransaction endpoint w) =
    Inl (Error relay_status
      (let generic = ''0slot execution failed: incorrect status code: '' @ show_nat (status response);
           appended = (if body_text response = [] then generic
                       else generic @ '', '' @ body_text response)
       in case body_json response of
            None \<Rightarrow> appended
          | Some errorData \<Rightarrow>
              if nullish errorData then appended
              else if truthy (field errorData ''error'') then
                to_string (Number_toString env)
                  (js_or (field (field errorData ''error'') ''message'')
                  (js_or (field (field errorData ''error'') ''code'') (Str generic)))
              else if truthy (field errorData ''message'') then
                to_string (Number_toString env) (field errorData ''message'')
              else generic))
    \<and> outcome (executeSwapWithOSlot env transactionBase64 connection signTransaction endpoint w) =
        Inl (Some RelayRejected)"
proof (cases "body_json response")
  case None
  then show ?thesis
    by (simp add: outcome_def relay_other_status [OF assms(1,2)] errorMessage_cases Let_def)
next
  case (Some errorData)
  from assms(3) [OF Some] show ?thesis
    by (simp add: outcome_def relay_other_status [OF assms(1,2)] errorMessage_cases Let_def
        Some js_or_def)
qed

theorem relay_other_status_message_witness:
  \<open>fst (executeSwapWithOSlot
      (stub_env (reply 429 ''Too Many Requests'' ''{"message":"rate limited"}''
         (Some (Obj [(''message'', Str ''rate limited'')]))))
      (Str ''dHg='') () stub_sign ''https://relay.example'' world0)
     = Inl (Error relay_status ''rate limited'')
   \<and> fst (executeSwapWithOSlot
      (stub_env (reply 502 ''Bad Gateway'' ''upstream down'' None))
      (Str ''dHg='') () stub_sign ''https://relay.example'' world0)
     = Inl (Error relay_status ''0slot execution failed: incorrect status code: 502, upstream down'')\<close>
  using relay_other_status_message
    [where env = \<open>stub_env (reply 429 ''Too Many Requests'' ''{"message":"rate limited"}''
           (Some (Obj [(''message'', Str ''rate limited'')])))\<close>
       and ?transactionBase64.0 = "Str ''dHg=''" and signTransaction = stub_sign
       and endpoint = "''https://relay.example''"
       and response = \<open>\<lparr>status = 429, statusText = ''Too Many Requests'',
            body_text = ''{"message":"rate limited"}'',
            body_json = Some (Obj [(''message'', Str ''rate limited'')])\<rparr>\<close>
       and connection = "()" and w = world0]
    relay_other_status_message
    [where env = \<open>stub_env (reply 502 ''Bad Gateway'' ''upstream down'' None)\<close>
       and ?transactionBase64.0 = "Str ''dHg=''" and signTransaction = stub_sign
       and endpoint = "''https://relay.example''"
       and response = \<open>\<lparr>status = 502, statusText = ''Bad Gateway'', body_text = ''upstream down'',
            body_json = None\<rparr>\<close>
       and connection = "()" and w = world0]
  by (simp add: relay_reply_def signed_bytes_def relay_request_def stub_defs nullish_def field_def
      show_nat.simps)

text \<open>
  C3 as stated fails: the relay answers 500 with the JSON body \<^verbatim>\<open>{}\<close>. It has neither
  \<^verbatim>\<open>error.message\<close> nor \<^verbatim>\<open>error.code\<close>, so the claim appends the raw body text to the generic
  message; the code leaves the generic message as it is.
\<close>

theorem relay_other_status_message_counterexample:
  \<open>fst (executeSwapWithOSlot
      (stub_env (reply 500 ''Internal Server Error'' ''{}'' (Some (Obj []))))
      (Str ''dHg='') () stub_sign ''https://relay.example'' world0)
     = Inl (Error relay_status ''0slot execution failed: incorrect status code: 500'')
   \<and> message_by_spec (\<lambda>q. ''0.5'')
        \<lparr>status = 500, statusText = ''Internal Server Error'', body_text = ''{}'',
         body_json = Some (Obj [])\<rparr>
     = ''0slot execution failed: incorrect status code: 500, {}''\<close>
  by (simp add: executeSwapWithOSlot_def executeSwapWithOSlot_try_def errorMessage_def
      errorMessage_try_def ToString_def io_defs stub_defs Let_def message_by_spec_def field_def
      show_nat.simps)

subsection \<open>The answers of the swap providers\<close>

lemma fst_logged:
  "fst (io_catch m (\<lambda>error. io_then (console_error (ps error)) (io_throw error)) w) = fst (m w)"
  by (simp add: io_catch_def io_steps split: prod.splits sum.splits)

lemma fst_fetchSwapTransaction_with:
  "fst (fetchSwapTransaction_with host env e p k w) = fst (fetchSwapTransaction_try host env e p k w)"
  unfolding fetchSwapTransaction_with_def by (rule fst_logged)

lemma try_custom:
  "aggregator_marker host e \<Longrightarrow>
   fetchSwapTransaction_try host env e p k = custom_branch env e p k"
  by (simp add: fetchSwapTransaction_try_def aggregator_marker_def)

lemma try_jupiter:
  "\<not> aggregator_marker host e \<Longrightarrow> quote_marker e \<Longrightarrow>
   fetchSwapTransaction_try host env e p k = jupiter_branch env e p k"
  by (simp add: fetchSwapTransaction_try_def aggregator_marker_def quote_marker_def)

lemma try_legacy:
  "\<not> aggregator_marker host e \<Longrightarrow> \<not> quote_marker e \<Longrightarrow>
   fetchSwapTransaction_try host env e p k = legacy_branch env e p"
  by (simp add: fetchSwapTransaction_try_def aggregator_marker_def quote_marker_def)

lemma ToString_printable:
  "\<not> unprintable v \<Longrightarrow> ToString env v = Inr (to_string (Number_toString env) v)"
  by (simp add: ToString_def)

lemma toString_field:
  "\<not> nullish v \<Longrightarrow> \<not> unprintable v \<Longrightarrow>
   toString env v = Inr (to_string (Number_toString env) v)"
  by (simp add: toString_def ToString_def)

lemma toString_default:
  "\<not> unprintable v \<Longrightarrow>
   toString env (js_or v (Num 50)) = Inr (to_string (Number_toString env) (js_or v (Num 50)))"
  by (cases v) (simp_all add: toString_def ToString_def js_or_def nullish_def)

lemma optional_chain:
  "(if q = Undefined \<or> q = Null then Inr Undefined else get q k) =
   Inr (if nullish q then Undefined else field q k)"
  by (cases q) (simp_all add: nullish_def field_def)

lemma not_present_field: "\<not> present r k \<Longrightarrow> field r k = Undefined"
  by (cases r) (auto simp: field_def)

lemma present_not_nullish: "present r k \<Longrightarrow> \<not> nullish r"
  by (cases r) (auto simp: nullish_def)

lemma legacy_2xx:
  assumes "http env \<lparr>req_method = ''POST'', req_url = e,
                      req_headers = [(''Content-Type'', ''application/json'')],
                      req_body = Some (JSON_stringify env p)\<rparr> = Inr resp"
    and "ok resp" and "body_json resp = Some r" and "\<not> nullish r"
  shows "fst (legacy_branch env e p w) =
    (if truthy (field r ''transaction'') then Inr (field r ''transaction'')
     else if truthy (field r ''swapTransaction'') then Inr (field r ''swapTransaction'')
     else if truthy (field r ''tx'') then Inr (field r ''tx'')
     else Inl (Error legacy_format ''Invalid response format from swap endpoint''))"
  unfolding legacy_branch_def using assms(1-3)
  by (simp add: io_steps get_field [OF assms(4)])

lemma custom_2xx:
  assumes "\<not> nullish p" and "\<not> nullish (field p ''amount'')"
    and pp: "printable_params p" and pk: "\<not> unprintable k"
    and "\<And>req. req_method req = ''GET'' \<Longrightarrow> http env req = Inr resp"
    and "ok resp" and "body_json resp = Some r" and "\<not> nullish r"
  shows "fst (custom_branch env e p k w) =
    (if truthy (field r ''data'') \<and> truthy (field (field r ''data'') ''swapData'')
     then Inr (field (field r ''data'') ''swapData'')
     else Inl (Error aggregator_format
            ''Invalid response format from swap endpoint. Expected data.swapData''))"
  unfolding custom_branch_def using assms(5-7) pp pk
  by (simp add: io_steps Let_def get_field [OF assms(1)] get_field [OF assms(8)]
      get_field [OF truthy_not_nullish] toString_field [OF assms(2)] toString_default
      ToString_printable optional_chain printable_params_def)

lemma jupiter_2xx:
  assumes "\<not> nullish p" and "\<not> nullish (field p ''amount'')"
    and pp: "printable_params p"
    and "\<And>req. req_method req = ''GET'' \<Longrightarrow> http env req = Inr qresp"
    and "ok qresp" and "body_json qresp = Some q"
    and "\<And>req. req_method req = ''POST'' \<Longrightarrow> http env req = Inr resp"
    and "ok resp" and "body_json resp = Some r" and "\<not> nullish r"
  shows "fst (jupiter_branch env e p k w) =
    (if truthy (field r ''swapTransaction'') then Inr (field r ''swapTransaction'')
     else Inl (Error swap_format ''Invalid response format from Jupiter swap API''))"
  unfolding jupiter_branch_def using assms(4-9) pp
  by (simp add: io_steps Let_def get_field [OF assms(1)] get_field [OF assms(10)]
      toString_field [OF assms(2)] toString_default ToString_printable printable_params_def)

subsection \<open>The choice of the provider\<close>

lemma with_branch:
  "fetchSwapTransaction_try host env e p k = m \<Longrightarrow>
   fetchSwapTransaction_with host env e p k = logging_errors m"
  by (simp add: fetchSwapTransaction_with_def logging_errors_def)

text \<open>
  C2. In both listings the endpoint string alone selects the branch, by substring tests in
  a fixed order: a marker of the custom aggregator (\<^verbatim>\<open>route/solana/swap\<close>, or the listing's
  host) takes the GET branch whether or not a quote marker is there too; otherwise a quote
  marker (\<^verbatim>\<open>quote-api.jup.ag\<close> or \<^verbatim>\<open>/quote\<close>) takes the two-step branch; otherwise the legacy
  POST branch runs.
\<close>

theorem fetch_selects_branch:
  "(aggregator_marker ''localhost:4000'' endpoint \<longrightarrow>
      fetchSwapTransaction env endpoint swapParams userPublicKey =
        logging_errors (custom_branch env endpoint swapParams userPublicKey))
   \<and> (\<not> aggregator_marker ''localhost:4000'' endpoint \<and> quote_marker endpoint \<longrightarrow>
      fetchSwapTransaction env endpoint swapParams userPublicKey =
        logging_errors (jupiter_branch env endpoint swapParams userPublicKey))
   \<and> (\<not> aggregator_marker ''localhost:4000'' endpoint \<and> \<not> quote_marker endpoint \<longrightarrow>
      fetchSwapTransaction env endpoint swapParams userPublicKey =
        logging_errors (legacy_branch env endpoint swapParams))
   \<and> (aggregator_marker ''metaagg.velvetdao.xyz'' endpoint \<longrightarrow>
      fetchSwapTransaction_2 env endpoint swapParams userPublicKey =
        logging_errors (custom_branch env endpoint swapParams userPublicKey))
   \<and> (\<not> aggregator_marker ''metaagg.velvetdao.xyz'' endpoint \<and> quote_marker endpoint \<longrightarrow>
      fetchSwapTransaction_2 env endpoint swapParams userPublicKey =
        logging_errors (jupiter_branch env endpoint swapParams userPublicKey))
   \<and> (\<not> aggregator_marker ''metaagg.velvetdao.xyz'' endpoint \<and> \<not> quote_marker endpoint \<longrightarrow>
      fetchSwapTransaction_2 env endpoint swapParams userPublicKey =
        logging_errors (legacy_branch env endpoint swapParams))"
  unfolding fetchSwapTransaction_def fetchSwapTransaction_2_def
  by (intro conjI impI with_branch try_custom try_jupiter try_legacy) simp_all

lemma markers_legacy:
  "\<not> aggregator_marker ''localhost:4000'' ''https://swap.example/api''"
  "\<not> aggregator_marker ''metaagg.velvetdao.xyz'' ''https://swap.example/api''"
  "\<not> quote_marker ''https://swap.example/api''"
  by (simp_all add: aggregator_marker_def quote_marker_def)

lemma markers_both:
  "aggregator_marker ''localhost:4000'' ''http://localhost:4000/quote''"
  "quote_marker ''http://localhost:4000/quote''"
  "\<not> aggregator_marker ''metaagg.velvetdao.xyz'' ''http://localhost:4000/quote''"
  by (simp_all add: aggregator_marker_def quote_marker_def)

theorem fetch_selects_branch_witness:
  "aggregator_marker ''localhost:4000'' ''http://localhost:4000/quote''
   \<and> quote_marker ''http://localhost:4000/quote''
   \<and> fetchSwapTransaction (stub_env (reply 200 ''OK'' [] None)) ''http://localhost:4000/quote''
        params0 payer0 =
      logging_errors (custom_branch (stub_env (reply 200 ''OK'' [] None))
        ''http://localhost:4000/quote'' params0 payer0)
   \<and> \<not> aggregator_marker ''metaagg.velvetdao.xyz'' ''http://localhost:4000/quote''
   \<and> fetchSwapTransaction_2 (stub_env (reply 200 ''OK'' [] None)) ''http://localhost:4000/quote''
        params0 payer0 =
      logging_errors (jupiter_branch (stub_env (reply 200 ''OK'' [] None))
        ''http://localhost:4000/quote'' params0 payer0)
   \<and> \<not> aggregator_marker ''localhost:4000'' ''https://swap.example/api''
   \<and> \<not> quote_marker ''https://swap.example/api''
   \<and> fetchSwapTransaction (stub_env (reply 200 ''OK'' [] None)) ''https://swap.example/api''
        params0 payer0 =
      logging_errors (legacy_branch (stub_env (reply 200 ''OK'' [] None))
        ''https://swap.example/api'' params0)"
  using fetch_selects_branch
    [of "''http://localhost:4000/quote''" "stub_env (reply 200 ''OK'' [] None)" params0 payer0]
    fetch_selects_branch
    [of "''https://swap.example/api''" "stub_env (reply 200 ''OK'' [] None)" params0 payer0]
    markers_both markers_legacy
  by simp

subsection \<open>The legacy provider\<close>

text \<open>
  C5. On an endpoint with no marker, when the provider answers the POST with a 2xx status
  and a well-formed JSON body, \<^verbatim>\<open>fetchSwapTransaction\<close> returns the value of the first of
  \<^verbatim>\<open>transaction\<close>, \<^verbatim>\<open>swapTransaction\<close>, \<^verbatim>\<open>tx\<close> that is present, as it is. Well-formed: one of the
  three fields is there and none of them holds a falsy value.
\<close>

theorem legacy_returns_first_present:
  assumes "\<not> aggregator_marker host endpoint" and "\<not> quote_marker endpoint"
    and "http env \<lparr>req_method = ''POST'', req_url = endpoint,
                    req_headers = [(''Content-Type'', ''application/json'')],
                    req_body = Some (JSON_stringify env swapParams)\<rparr> = Inr response"
    and "ok response" and "body_json response = Some data"
    and "well_formed_legacy data"
  shows "fst (fetchSwapTransaction_with host env endpoint swapParams userPublicKey w) =
    Inr (if present data ''transaction'' then field data ''transaction''
         else if present data ''swapTransaction'' then field data ''swapTransaction''
         else field data ''tx'')"
proof -
  from assms(6) have nn: "\<not> nullish data"
    by (auto simp: well_formed_legacy_def dest: present_not_nullish)
  have absent: "\<not> truthy (field data k)" if "\<not> present data k" for k
    using that by (simp add: not_present_field)
  from assms(6) have there: "truthy (field data k)"
    if "present data k" "k \<in> {''transaction'', ''swapTransaction'', ''tx''}" for k
    using that unfolding well_formed_legacy_def by auto
  from assms(6) have some:
    "present data ''transaction'' \<or> present data ''swapTransaction'' \<or> present data ''tx''"
    by (simp add: well_formed_legacy_def)
  have "fst (fetchSwapTransaction_with host env endpoint swapParams userPublicKey w) =
        fst (legacy_branch env endpoint swapParams w)"
    by (simp add: fst_fetchSwapTransaction_with try_legacy [OF assms(1,2)])
  also have "\<dots> =
    (if truthy (field data ''transaction'') then Inr (field data ''transaction'')
     else if truthy (field data ''swapTransaction'') then Inr (field data ''swapTransaction'')
     else if truthy (field data ''tx'') then Inr (field data ''tx'')
     else Inl (Error legacy_format ''Invalid response format from swap endpoint''))"
    by (rule legacy_2xx [OF assms(3-5) nn])
  also have "\<dots> =
    Inr (if present data ''transaction'' then field data ''transaction''
         else if present data ''swapTransaction'' then field data ''swapTransaction''
         else field data ''tx'')"
    using some there [of "''transaction''"] there [of "''swapTransaction''"] there [of "''tx''"]
      absent [of "''transaction''"] absent [of "''swapTransaction''"]
    by auto
  finally show ?thesis .
qed

theorem legacy_returns_first_present_witness:
  \<open>\<not> aggregator_marker ''localhost:4000'' ''https://swap.example/api''
   \<and> \<not> quote_marker ''https://swap.example/api''
   \<and> ok \<lparr>status = 201, statusText = ''Created'', body_text = ''{"tx":"AQID","swapTransaction":"BAUG"}'',
          body_json = Some (Obj [(''tx'', Str ''AQID''), (''swapTransaction'', Str ''BAUG'')])\<rparr>
   \<and> well_formed_legacy (Obj [(''tx'', Str ''AQID''), (''swapTransaction'', Str ''BAUG'')])
   \<and> fst (fetchSwapTransaction
        (stub_env (reply 201 ''Created'' ''{"tx":"AQID","swapTransaction":"BAUG"}''
           (Some (Obj [(''tx'', Str ''AQID''), (''swapTransaction'', Str ''BAUG'')]))))
        ''https://swap.example/api'' params0 payer0 world0) = Inr (Str ''BAUG'')\<close>
  using legacy_returns_first_present
    [of "''localhost:4000''" "''https://swap.example/api''"
        \<open>stub_env (reply 201 ''Created'' ''{"tx":"AQID","swapTransaction":"BAUG"}''
           (Some (Obj [(''tx'', Str ''AQID''), (''swapTransaction'', Str ''BAUG'')])))\<close>
        params0
        \<open>\<lparr>status = 201, statusText = ''Created'',
           body_text = ''{"tx":"AQID","swapTransaction":"BAUG"}'',
           body_json = Some (Obj [(''tx'', Str ''AQID''), (''swapTransaction'', Str ''BAUG'')])\<rparr>\<close>
        "Obj [(''tx'', Str ''AQID''), (''swapTransaction'', Str ''BAUG'')]" payer0 world0]
    markers_legacy
  by (simp add: fetchSwapTransaction_def stub_defs ok_def well_formed_legacy_def field_def)

subsection \<open>Answers without a transaction\<close>

text \<open>
  C4, as amended. In each of the three branches, when the provider answers 2xx with a JSON
  body other than \<^verbatim>\<open>null\<close> in which every recognised transaction field is missing (or holds
  a falsy value), \<^verbatim>\<open>fetchSwapTransaction\<close> fails with the InvalidResponseShape error of the
  branch. The message of that error is fixed text; it does not tell the answer received.
  The two branches that ask by GET get to the provider when the parameters of the query
  string have a string each.
\<close>

theorem fetch_fails_without_transaction:
  "(aggregator_marker host endpoint \<and> \<not> nullish swapParams \<and> \<not> nullish (field swapParams ''amount'')
      \<and> printable_params swapParams \<and> \<not> unprintable userPublicKey
      \<and> (\<forall>req. req_method req = ''GET'' \<longrightarrow> http env req = Inr response)
      \<and> ok response \<and> body_json response = Some r \<and> \<not> nullish r
      \<and> \<not> (truthy (field r ''data'') \<and> truthy (field (field r ''data'') ''swapData''))
    \<longrightarrow> fst (fetchSwapTransaction_with host env endpoint swapParams userPublicKey w) =
          Inl (Error aggregator_format
                 ''Invalid response format from swap endpoint. Expected data.swapData''))
   \<and> (\<not> aggregator_marker host endpoint \<and> quote_marker endpoint
      \<and> \<not> nullish swapParams \<and> \<not> nullish (field swapParams ''amount'')
      \<and> printable_params swapParams
      \<and> (\<forall>req. req_method req = ''GET'' \<longrightarrow> http env req = Inr quoteResponse)
      \<and> ok quoteResponse \<and> body_json quoteResponse = Some quoteData
      \<and> (\<forall>req. req_method req = ''POST'' \<longrightarrow> http env req = Inr response)
      \<and> ok response \<and> body_json response = Some r \<and> \<not> nullish r
      \<and> \<not> truthy (field r ''swapTransaction'')
    \<longrightarrow> fst (fetchSwapTransaction_with host env endpoint swapParams userPublicKey w) =
          Inl (Error swap_format ''Invalid response format from Jupiter swap API''))
   \<and> (\<not> aggregator_marker host endpoint \<and> \<not> quote_marker endpoint
      \<and> (\<forall>req. req_method req = ''POST'' \<longrightarrow> http env req = Inr response)
      \<and> ok response \<and> body_json response = Some r \<and> \<not> nullish r
      \<and> \<not> truthy (field r ''transaction'') \<and> \<not> truthy (field r ''swapTransaction'')
      \<and> \<not> truthy (field r ''tx'')
    \<longrightarrow> fst (fetchSwapTransaction_with host env endpoint swapParams userPublicKey w) =
          Inl (Error legacy_format ''Invalid response format from swap endpoint''))
   \<and> kind_of aggregator_format = InvalidResponseShape
   \<and> kind_of swap_format = InvalidResponseShape
   \<and> kind_of legacy_format = InvalidResponseShape"
proof (intro conjI impI)
  assume a: "aggregator_marker host endpoint \<and> \<not> nullish swapParams
      \<and> \<not> nullish (field swapParams ''amount'')
      \<and> printable_params swapParams \<and> \<not> unprintable userPublicKey
      \<and> (\<forall>req. req_method req = ''GET'' \<longrightarrow> http env req = Inr response)
      \<and> ok response \<and> body_json response = Some r \<and> \<not> nullish r
      \<and> \<not> (truthy (field r ''data'') \<and> truthy (field (field r ''data'') ''swapData''))"
  then have "fst (custom_branch env endpoint swapParams userPublicKey w) =
      Inl (Error aggregator_format
             ''Invalid response format from swap endpoint. Expected data.swapData'')"
    by (subst custom_2xx [where resp = response and r = r]) auto
  with a show "fst (fetchSwapTransaction_with host env endpoint swapParams userPublicKey w) =
      Inl (Error aggregator_format
             ''Invalid response format from swap endpoint. Expected data.swapData'')"
    by (simp add: fst_fetchSwapTransaction_with try_custom)
next
  assume a: "\<not> aggregator_marker host endpoint \<and> quote_marker endpoint
      \<and> \<not> nullish swapParams \<and> \<not> nullish (field swapParams ''amount'')
      \<and> printable_params swapParams
      \<and> (\<forall>req. req_method req = ''GET'' \<longrightarrow> http env req = Inr quoteResponse)
      \<and> ok quoteResponse \<and> body_json quoteResponse = Some quoteData
      \<and> (\<forall>req. req_method req = ''POST'' \<longrightarrow> http env req = Inr response)
      \<and> ok response \<and> body_json response = Some r \<and> \<not> nullish r
      \<and> \<not> truthy (field r ''swapTransaction'')"
  then have "fst (jupiter_branch env endpoint swapParams userPublicKey w) =
      Inl (Error swap_format ''Invalid response format from Jupiter swap API'')"
    by (subst jupiter_2xx [where qresp = quoteResponse and q = quoteData
          and resp = response and r = r]) auto
  with a show "fst (fetchSwapTransaction_with host env endpoint swapParams userPublicKey w) =
      Inl (Error swap_format ''Invalid response format from Jupiter swap API'')"
    by (simp add: fst_fetchSwapTransaction_with try_jupiter)
next
  assume a: "\<not> aggregator_marker host endpoint \<and> \<not> quote_marker endpoint
      \<and> (\<forall>req. req_method req = ''POST'' \<longrightarrow> http env req = Inr response)
      \<and> ok response \<and> body_json response = Some r \<and> \<not> nullish r
      \<and> \<not> truthy (field r ''transaction'') \<and> \<not> truthy (field r ''swapTransaction'')
      \<and> \<not> truthy (field r ''tx'')"
  then have "fst (legacy_branch env endpoint swapParams w) =
      Inl (Error legacy_format ''Invalid response format from swap endpoint'')"
    by (subst legacy_2xx [where resp = response and r = r]) auto
  with a show "fst (fetchSwapTransaction_with host env endpoint swapParams userPublicKey w) =
      Inl (Error legacy_format ''Invalid response format from swap endpoint'')"
    by (simp add: fst_fetchSwapTransaction_with try_legacy)
qed simp_all

lemma markers_custom:
  "aggregator_marker ''metaagg.velvetdao.xyz'' ''https://metaagg.velvetdao.xyz/api/v1/route/solana/swap''"
  "aggregator_marker ''localhost:4000'' ''https://metaagg.velvetdao.xyz/api/v1/route/solana/swap''"
  by (simp_all add: aggregator_marker_def)

lemma markers_jupiter:
  "\<not> aggregator_marker ''metaagg.velvetdao.xyz'' ''https://quote-api.jup.ag/v6/quote''"
  "\<not> aggregator_marker ''localhost:4000'' ''https://quote-api.jup.ag/v6/quote''"
  "quote_marker ''https://quote-api.jup.ag/v6/quote''"
  by (simp_all add: aggregator_marker_def quote_marker_def)

theorem fetch_fails_without_transaction_witness:
  \<open>fst (fetchSwapTransaction_2
      (stub_env (reply 200 ''OK'' ''{"data":{}}'' (Some (Obj [(''data'', Obj [])]))))
      ''https://metaagg.velvetdao.xyz/api/v1/route/solana/swap'' params0 payer0 world0)
     = Inl (Error aggregator_format
             ''Invalid response format from swap endpoint. Expected data.swapData'')
   \<and> fst (fetchSwapTransaction_2
      (stub_env (by_method
         \<lparr>status = 200, statusText = ''OK'', body_text = ''{"outAmount":"7"}'',
          body_json = Some (Obj [(''outAmount'', Str ''7'')])\<rparr>
         \<lparr>status = 200, statusText = ''OK'', body_text = ''{"simulationError":null}'',
          body_json = Some (Obj [(''simulationError'', Null)])\<rparr>))
      ''https://quote-api.jup.ag/v6/quote'' params0 payer0 world0)
     = Inl (Error swap_format ''Invalid response format from Jupiter swap API'')
   \<and> fst (fetchSwapTransaction_2
      (stub_env (reply 200 ''OK'' ''{"foo":"bar"}'' (Some (Obj [(''foo'', Str ''bar'')]))))
      ''https://swap.example/api'' params0 payer0 world0)
     = Inl (Error legacy_format ''Invalid response format from swap endpoint'')\<close>
  using
    fetch_fails_without_transaction
      [where host = "''metaagg.velvetdao.xyz''"
         and endpoint = "''https://metaagg.velvetdao.xyz/api/v1/route/solana/swap''"
         and env = \<open>stub_env (reply 200 ''OK'' ''{"data":{}}'' (Some (Obj [(''data'', Obj [])])))\<close>
         and swapParams = params0 and userPublicKey = payer0 and w = world0
         and response = \<open>\<lparr>status = 200, statusText = ''OK'', body_text = ''{"data":{}}'',
                          body_json = Some (Obj [(''data'', Obj [])])\<rparr>\<close>
         and r = "Obj [(''data'', Obj [])]"]
    fetch_fails_without_transaction
      [where host = "''metaagg.velvetdao.xyz''"
         and endpoint = "''https://quote-api.jup.ag/v6/quote''"
         and env = \<open>stub_env (by_method
            \<lparr>status = 200, statusText = ''OK'', body_text = ''{"outAmount":"7"}'',
             body_json = Some (Obj [(''outAmount'', Str ''7'')])\<rparr>
            \<lparr>status = 200, statusText = ''OK'', body_text = ''{"simulationError":null}'',
             body_json = Some (Obj [(''simulationError'', Null)])\<rparr>)\<close>
         and swapParams = params0 and userPublicKey = payer0 and w = world0
         and quoteResponse = \<open>\<lparr>status = 200, statusText = ''OK'',
             body_text = ''{"outAmount":"7"}'',
             body_json = Some (Obj [(''outAmount'', Str ''7'')])\<rparr>\<close>
         and quoteData = "Obj [(''outAmount'', Str ''7'')]"
         and response = \<open>\<lparr>status = 200, statusText = ''OK'',
             body_text = ''{"simulationError":null}'',
             body_json = Some (Obj [(''simulationError'', Null)])\<rparr>\<close>
         and r = "Obj [(''simulationError'', Null)]"]
    fetch_fails_without_transaction
      [where host = "''metaagg.velvetdao.xyz''"
         and endpoint = "''https://swap.example/api''"
         and env = \<open>stub_env (reply 200 ''OK'' ''{"foo":"bar"}'' (Some (Obj [(''foo'', Str ''bar'')])))\<close>
         and swapParams = params0 and userPublicKey = payer0 and w = world0
         and response = \<open>\<lparr>status = 200, statusText = ''OK'', body_text = ''{"foo":"bar"}'',
                          body_json = Some (Obj [(''foo'', Str ''bar'')])\<rparr>\<close>
         and r = "Obj [(''foo'', Str ''bar'')]"]
    markers_custom markers_jupiter markers_legacy
  by (simp add: fetchSwapTransaction_2_def stub_defs by_method_def ok_def nullish_def field_def
      params0_def payer0_def printable_params_def)

text \<open>
  C4 as stated fails: a legacy provider answers 200 with \<^verbatim>\<open>{"foo":"bar"}\<close>. The call fails,
  but the error surfaced is the fixed text of the branch; nothing of the answer received is
  in it.
\<close>

theorem fetch_error_notes_shape_counterexample:
  \<open>fst (fetchSwapTransaction
      (stub_env (reply 200 ''OK'' ''{"foo":"bar"}'' (Some (Obj [(''foo'', Str ''bar'')]))))
      ''https://swap.example/api'' params0 payer0 world0)
     = Inl (Error legacy_format ''Invalid response format from swap endpoint'')
   \<and> \<not> includes_str ''Invalid response format from swap endpoint'' ''foo''
   \<and> \<not> includes_str ''Invalid response format from swap endpoint'' ''{"foo":"bar"}''\<close>
  by (simp add: fetchSwapTransaction_def fetchSwapTransaction_with_def
      fetchSwapTransaction_try_def legacy_branch_def io_defs stub_defs ok_def)

subsection \<open>What a call sends\<close>

lemma silent_return: "silent (io_return x)"
  by (simp add: silent_def io_return_def)

lemma silent_throw: "silent (io_throw e)"
  by (simp add: silent_def io_throw_def)

lemma silent_of: "silent (io_of r)"
  by (simp add: silent_def io_of_def)

lemma silent_await: "silent (await r)"
  by (simp add: silent_def await_def split: sum.splits)

lemma silent_now: "silent (performance_now env)"
  by (simp add: silent_def performance_now_def)

lemma silent_log: "silent (console_log ps)"
  by (simp add: silent_def console_log_def)

lemma silent_err: "silent (console_error ps)"
  by (simp add: silent_def console_error_def)

lemma silent_json: "silent (response_json r)"
  by (simp add: response_json_def silent_return silent_throw split: option.splits)

lemma silent_bind: "silent m \<Longrightarrow> (\<And>x. silent (f x)) \<Longrightarrow> silent (io_bind m f)"
  unfolding silent_def io_bind_def
  by (auto split: prod.splits sum.splits) (metis snd_conv)+

lemma silent_then: "silent m \<Longrightarrow> silent k \<Longrightarrow> silent (io_then m k)"
  by (simp add: io_then_def silent_bind)

lemma silent_catch: "silent m \<Longrightarrow> (\<And>e. silent (h e)) \<Longrightarrow> silent (io_catch m h)"
  unfolding silent_def io_catch_def
  by (auto split: prod.splits sum.splits) (metis snd_conv)+

lemma silent_elapsed: "silent (elapsed env s)"
  by (simp add: elapsed_def silent_bind silent_now silent_return)

lemma silent_if: "(c \<Longrightarrow> silent a) \<Longrightarrow> (\<not> c \<Longrightarrow> silent b) \<Longrightarrow> silent (if c then a else b)"
  by simp

lemmas silent_intros =
  silent_return silent_throw silent_of silent_await silent_now silent_log silent_err silent_json
  silent_elapsed silent_bind silent_then silent_catch silent_if

lemma silent_on_responseData: "silent (on_responseData env r rt tt)"
  unfolding on_responseData_def by (intro silent_intros)

lemma sent_bind_fetch:
  assumes "\<And>r. silent (f r)"
  shows "sent (snd (io_bind (fetch env req) f w)) = sent w @ [req]"
    and "broadcasts (snd (io_bind (fetch env req) f w)) = broadcasts w"
  using assms by (auto simp: io_bind_fetch silent_def split: sum.splits)

lemma sent_catch:
  assumes "\<And>e. silent (h e)"
  shows "sent (snd (io_catch m h w)) = sent (snd (m w))"
    and "broadcasts (snd (io_catch m h w)) = broadcasts (snd (m w))"
  using assms by (auto simp: io_catch_def silent_def split: prod.splits sum.splits)

lemma sent_try:
  "sent (snd (executeSwapWithOSlot_try env t0 b64 sign endpoint w)) =
     (case signed_bytes env b64 sign of
        None \<Rightarrow> sent w
      | Some bytes \<Rightarrow> sent w @ [relay_request env endpoint bytes])"
proof (cases "deserialize env b64")
  case (Inl d)
  then show ?thesis
    unfolding executeSwapWithOSlot_try_def by (simp add: io_steps signed_bytes_def io_throw_def)
next
  case tx: (Inr tx)
  show ?thesis
  proof (cases "sign tx")
    case (Inl d)
    with tx show ?thesis
      unfolding executeSwapWithOSlot_try_def by (simp add: io_steps signed_bytes_def io_throw_def)
  next
    case stx: (Inr stx)
    show ?thesis
    proof (cases "serialize env stx")
      case (Inl d)
      with tx stx show ?thesis
        unfolding executeSwapWithOSlot_try_def
        by (simp add: io_steps signed_bytes_def io_throw_def)
    next
      case (Inr bytes)
      with tx stx show ?thesis
        unfolding executeSwapWithOSlot_try_def
        apply (simp add: io_bind_await_Inr io_then_log io_bind_now io_bind_elapsed Let_def
            signed_bytes_def relay_request_def)
        apply (subst sent_bind_fetch)
         apply (intro silent_intros silent_on_responseData)
        apply simp
        done
    qed
  qed
qed

lemma sent_executeSwapWithOSlot:
  "sent (snd (executeSwapWithOSlot env b64 c sign endpoint w)) =
     (case signed_bytes env b64 sign of
        None \<Rightarrow> sent w
      | Some bytes \<Rightarrow> sent w @ [relay_request env endpoint bytes])"
  unfolding executeSwapWithOSlot_def
  by (simp add: io_bind_now sent_try sent_catch silent_intros split: option.splits)

text \<open>
  C6, as amended. A submission of the JSON-RPC listing sends nothing when decoding, signing
  or serialising fails, and otherwise exactly one request: a POST to the endpoint, with
  content type \<^verbatim>\<open>application/json\<close>, whose body is the JSON text of the envelope with
  \<^verbatim>\<open>jsonrpc\<close> \<open>2.0\<close>, \<^verbatim>\<open>id\<close> \<open>1\<close>, method \<^verbatim>\<open>sendTransaction\<close> and the two parameters: the signed
  transaction in base64, and the options \<^verbatim>\<open>encoding\<close> \<open>base64\<close>, \<^verbatim>\<open>skipPreflight\<close> \<open>true\<close>,
  \<^verbatim>\<open>preflightCommitment\<close> \<open>processed\<close>, \<^verbatim>\<open>maxRetries\<close> \<open>0\<close> and \<^verbatim>\<open>minContextSlot\<close> \<open>null\<close>.
\<close>

theorem relay_request_envelope:
  "sent (snd (executeSwapWithOSlot env transactionBase64 connection signTransaction endpoint w)) =
     (case signed_bytes env transactionBase64 signTransaction of
        None \<Rightarrow> sent w
      | Some bytes \<Rightarrow>
          sent w @
          [\<lparr>req_method = ''POST'', req_url = endpoint,
            req_headers = [(''Content-Type'', ''application/json'')],
            req_body = Some (JSON_stringify env
              (Obj [(''jsonrpc'', Str ''2.0''),
                    (''id'', Num 1),
                    (''method'', Str ''sendTransaction''),
                    (''params'',
                       Arr [Str (toBase64 env bytes),
                            Obj [(''encoding'', Str ''base64''),
                                 (''skipPreflight'', Bool True),
                                 (''preflightCommitment'', Str ''processed''),
                                 (''maxRetries'', Num 0),
                                 (''minContextSlot'', Null)]])]))\<rparr>])"
  by (simp add: sent_executeSwapWithOSlot relay_request_def payload_def split: option.splits)

text \<open>
  C6 as stated fails: the options the submission sends have a fifth member,
  \<^verbatim>\<open>minContextSlot\<close>, so the parameters are not the two-element list of the claim.
\<close>

theorem relay_request_params_counterexample:
  \<open>map req_body (sent (snd (executeSwapWithOSlot
      (stub_env (reply 200 ''OK'' ''{"result":"sig1"}'' (Some (Obj [(''result'', Str ''sig1'')]))))
      (Str ''dHg='') () stub_sign ''https://relay.example'' world0)))
     = [Some (render (Obj [(''jsonrpc'', Str ''2.0''), (''id'', Num 1),
                           (''method'', Str ''sendTransaction''),
                           (''params'', field (payload ''c2lnbmVk'') ''params'')]))]
   \<and> render (field (payload ''c2lnbmVk'') ''params'') =
       ''["c2lnbmVk",{"encoding":"base64","skipPreflight":true,"preflightCommitment":"processed","maxRetries":0,"minContextSlot":null}]''
   \<and> field (payload ''c2lnbmVk'') ''params'' \<noteq> params_by_spec ''c2lnbmVk''\<close>
  by (simp add: sent_executeSwapWithOSlot signed_bytes_def relay_request_def stub_defs
      payload_def params_by_spec_def field_def show_int_def show_nat.simps)

subsection \<open>Answers with a failing status\<close>

text \<open>
  C7 fails on the code. Only the custom aggregator branch puts both the status text and the
  body text into its error. A legacy provider that answers 500 gets the status text alone,
  as does the quote step; the swap step gets the body text alone.
\<close>

theorem fetch_error_text:
  \<open>fst (fetchSwapTransaction
      (stub_env (reply 500 ''Internal Server Error'' ''upstream exploded'' None))
      ''https://swap.example/api'' params0 payer0 world0)
     = Inl (Error legacy_http ''Failed to fetch swap transaction: Internal Server Error'')
   \<and> fst (fetchSwapTransaction
      (stub_env (reply 500 ''Internal Server Error'' ''upstream exploded'' None))
      ''https://quote-api.jup.ag/v6/quote'' params0 payer0 world0)
     = Inl (Error quote_http ''Failed to get quote: Internal Server Error'')
   \<and> fst (fetchSwapTransaction
      (stub_env (by_method
         \<lparr>status = 200, statusText = ''OK'', body_text = ''{"outAmount":"7"}'',
          body_json = Some (Obj [(''outAmount'', Str ''7'')])\<rparr>
         \<lparr>status = 400, statusText = ''Bad Request'', body_text = ''slippage exceeded'',
          body_json = None\<rparr>))
      ''https://quote-api.jup.ag/v6/quote'' params0 payer0 world0)
     = Inl (Error swap_http ''Failed to get swap transaction: slippage exceeded'')
   \<and> fst (fetchSwapTransaction
      (stub_env (reply 500 ''Internal Server Error'' ''upstream exploded'' None))
      ''http://localhost:4000/swap'' params0 payer0 world0)
     = Inl (Error aggregator_http
         ''Failed to fetch swap transaction: Internal Server Error - upstream exploded'')\<close>
  by (simp add: fetchSwapTransaction_def fetchSwapTransaction_with_def
      fetchSwapTransaction_try_def legacy_branch_def jupiter_branch_def custom_branch_def
      io_defs stub_defs by_method_def ok_def params0_def payer0_def toString_def ToString_def
      nullish_def js_or_def Let_def show_number_def safe_integer_def show_int_def show_nat.simps)

subsection \<open>The slippage sent to the provider\<close>

lemma show_50: "show_number pr 50 = ''50''"
  by (simp add: show_number_def safe_integer_def show_int_def show_nat.simps)

lemma default_slippage: "\<not> truthy v \<Longrightarrow> to_string pr (js_or v (Num 50)) = ''50''"
  by (simp add: js_or_def show_50)

lemma sent_fetchSwapTransaction_with:
  "sent (snd (fetchSwapTransaction_with host env e p k w)) =
   sent (snd (fetchSwapTransaction_try host env e p k w))"
  unfolding fetchSwapTransaction_with_def by (simp add: sent_catch silent_intros)

lemma sent_custom:
  assumes "\<not> nullish p" and "\<not> nullish (field p ''amount'')"
    and pp: "printable_params p" and pk: "\<not> unprintable k"
  shows "sent (snd (custom_branch env e p k w)) =
    sent w @
    [\<lparr>req_method = ''GET'',
      req_url = e @ ''?'' @ URLSearchParams env
        [(''tokenIn'', to_string (Number_toString env) (field p ''inputMint'')),
         (''tokenOut'', to_string (Number_toString env) (field p ''outputMint'')),
         (''amount'', to_string (Number_toString env) (field p ''amount'')),
         (''sender'', to_string (Number_toString env) k),
         (''slippage'', to_string (Number_toString env) (js_or (field p ''slippageBps'') (Num 50)))],
      req_headers = [(''Content-Type'', ''application/json'')],
      req_body = None\<rparr>]"
  unfolding custom_branch_def using pp pk
  apply (simp add: io_bind_of_Inr io_then_log Let_def get_field [OF assms(1)]
      toString_field [OF assms(2)] toString_default ToString_printable printable_params_def)
  apply (subst sent_bind_fetch)
   apply (intro silent_intros)
  apply simp
  done

lemma appends_silent: "silent m \<Longrightarrow> appends m"
  by (simp add: silent_def appends_def)

lemma appends_fetch: "appends (fetch env req)"
  by (simp add: appends_def fetch_def split: sum.splits)

lemma appends_bind: "appends m \<Longrightarrow> (\<And>x. appends (f x)) \<Longrightarrow> appends (io_bind m f)"
  unfolding appends_def io_bind_def
proof (intro allI)
  fix w
  assume m: "\<forall>w. \<exists>rest. sent (snd (m w)) = sent w @ rest"
    and f: "\<And>x. \<forall>w. \<exists>rest. sent (snd (f x w)) = sent w @ rest"
  obtain r w' where mw: "m w = (r, w')" by (cases "m w")
  from m obtain rest where rest: "sent w' = sent w @ rest"
    using mw by (metis snd_conv)
  show "\<exists>rest. sent (snd (case m w of (Inl e, w') \<Rightarrow> (Inl e, w') | (Inr x, w') \<Rightarrow> f x w')) =
          sent w @ rest"
  proof (cases r)
    case (Inl e)
    with mw rest show ?thesis by simp
  next
    case (Inr x)
    from f [of x] obtain rest' where "sent (snd (f x w')) = sent w' @ rest'" by blast
    with mw rest Inr show ?thesis by simp
  qed
qed

lemma appends_if: "(c \<Longrightarrow> appends a) \<Longrightarrow> (\<not> c \<Longrightarrow> appends b) \<Longrightarrow> appends (if c then a else b)"
  by simp

lemmas appends_intros =
  appends_bind appends_if appends_fetch
  silent_return [THEN appends_silent] silent_throw [THEN appends_silent]
  silent_of [THEN appends_silent] silent_json [THEN appends_silent]

lemma sent_bind_fetch_appends:
  assumes "\<And>r. appends (f r)"
  shows "\<exists>rest. sent (snd (io_bind (fetch env req) f w)) = sent w @ req # rest"
proof (cases "http env req")
  case (Inl d)
  then show ?thesis by (simp add: io_bind_fetch)
next
  case (Inr r)
  from assms [of r] obtain rest where
    "sent (snd (f r (w\<lparr>sent := sent w @ [req]\<rparr>))) = sent (w\<lparr>sent := sent w @ [req]\<rparr>) @ rest"
    unfolding appends_def by blast
  with Inr show ?thesis by (simp add: io_bind_fetch)
qed

lemma sent_jupiter:
  assumes "\<not> nullish p" and "\<not> nullish (field p ''amount'')"
    and pp: "printable_params p"
  shows "\<exists>rest. sent (snd (jupiter_branch env e p k w)) =
    sent w @
    \<lparr>req_method = ''GET'',
      req_url = e @ ''?'' @ URLSearchParams env
        [(''inputMint'', to_string (Number_toString env) (field p ''inputMint'')),
         (''outputMint'', to_string (Number_toString env) (field p ''outputMint'')),
         (''amount'', to_string (Number_toString env) (field p ''amount'')),
         (''slippageBps'', to_string (Number_toString env) (js_or (field p ''slippageBps'') (Num 50)))],
      req_headers = [], req_body = None\<rparr> # rest"
  unfolding jupiter_branch_def using pp
  apply (simp add: io_bind_of_Inr Let_def get_field [OF assms(1)] toString_field [OF assms(2)]
      toString_default ToString_printable printable_params_def)
  apply (rule sent_bind_fetch_appends)
  apply (intro appends_intros)
  done

text \<open>
  C10. With swap parameters whose \<^verbatim>\<open>slippageBps\<close> is falsy (the number \<open>0\<close>, as well as a
  missing one), the request of the custom aggregator branch carries \<^verbatim>\<open>slippage=50\<close>, and the
  quote request of the two-step branch carries \<^verbatim>\<open>slippageBps=50\<close>. A request goes out when
  the parameters of its query string have a string each.
\<close>

theorem falsy_slippage_sent_as_50:
  assumes "\<not> nullish swapParams" and "\<not> nullish (field swapParams ''amount'')"
    and "\<not> truthy (field swapParams ''slippageBps'')"
    and "printable_params swapParams"
  shows "(aggregator_marker host endpoint \<and> \<not> unprintable userPublicKey \<longrightarrow>
      sent (snd (fetchSwapTransaction_with host env endpoint swapParams userPublicKey w)) =
        sent w @
        [\<lparr>req_method = ''GET'',
          req_url = endpoint @ ''?'' @ URLSearchParams env
            [(''tokenIn'', to_string (Number_toString env) (field swapParams ''inputMint'')),
             (''tokenOut'', to_string (Number_toString env) (field swapParams ''outputMint'')),
             (''amount'', to_string (Number_toString env) (field swapParams ''amount'')),
             (''sender'', to_string (Number_toString env) userPublicKey),
             (''slippage'', ''50'')],
          req_headers = [(''Content-Type'', ''application/json'')],
          req_body = None\<rparr>])
   \<and> (\<not> aggregator_marker host endpoint \<and> quote_marker endpoint \<longrightarrow>
      (\<exists>rest.
        sent (snd (fetchSwapTransaction_with host env endpoint swapParams userPublicKey w)) =
          sent w @
          \<lparr>req_method = ''GET'',
            req_url = endpoint @ ''?'' @ URLSearchParams env
              [(''inputMint'', to_string (Number_toString env) (field swapParams ''inputMint'')),
               (''outputMint'', to_string (Number_toString env) (field swapParams ''outputMint'')),
               (''amount'', to_string (Number_toString env) (field swapParams ''amount'')),
               (''slippageBps'', ''50'')],
            req_headers = [], req_body = None\<rparr> # rest))"
  using sent_custom [OF assms(1,2,4), of userPublicKey env endpoint w]
    sent_jupiter [OF assms(1,2,4), of env endpoint userPublicKey w]
  by (simp add: sent_fetchSwapTransaction_with try_custom try_jupiter
      default_slippage [OF assms(3)])

theorem falsy_slippage_sent_as_50_witness:
  "\<not> nullish params0 \<and> \<not> nullish (field params0 ''amount'')
   \<and> field params0 ''slippageBps'' = Num 0 \<and> \<not> truthy (field params0 ''slippageBps'')
   \<and> printable_params params0 \<and> \<not> unprintable payer0
   \<and> aggregator_marker ''metaagg.velvetdao.xyz''
        ''https://metaagg.velvetdao.xyz/api/v1/route/solana/swap''
   \<and> map req_url (sent (snd (fetchSwapTransaction_2 (stub_env (reply 200 ''OK'' [] None))
        ''https://metaagg.velvetdao.xyz/api/v1/route/solana/swap'' params0 payer0 world0))) =
      [''https://metaagg.velvetdao.xyz/api/v1/route/solana/swap?tokenIn=So11&tokenOut=EPjF&amount=1000&sender=payer&slippage=50'']
   \<and> quote_marker ''https://quote-api.jup.ag/v6/quote''
   \<and> (\<exists>rest. map req_url (sent (snd (fetchSwapTransaction_2 (stub_env (reply 200 ''OK'' [] None))
        ''https://quote-api.jup.ag/v6/quote'' params0 payer0 world0))) =
      ''https://quote-api.jup.ag/v6/quote?inputMint=So11&outputMint=EPjF&amount=1000&slippageBps=50''
        # rest)"
  using falsy_slippage_sent_as_50
    [where swapParams = params0 and host = "''metaagg.velvetdao.xyz''"
       and endpoint = "''https://metaagg.velvetdao.xyz/api/v1/route/solana/swap''"
       and env = "stub_env (reply 200 ''OK'' [] None)" and userPublicKey = payer0
       and w = world0]
    falsy_slippage_sent_as_50
    [where swapParams = params0 and host = "''metaagg.velvetdao.xyz''"
       and endpoint = "''https://quote-api.jup.ag/v6/quote''"
       and env = "stub_env (reply 200 ''OK'' [] None)" and userPublicKey = payer0
       and w = world0]
    markers_custom markers_jupiter
  by (auto simp add: fetchSwapTransaction_2_def params0_def payer0_def nullish_def field_def
      printable_params_def stub_defs show_number_def safe_integer_def show_int_def show_nat.simps)

subsection \<open>Failures of a submission\<close>

lemma executeSwapWithOSlot_rethrows:
  "executeSwapWithOSlot env b64 c sign e w =
     (let body = executeSwapWithOSlot_try env (now env (tick w)) b64 sign e
                   (w\<lparr>tick := Suc (tick w)\<rparr>)
      in case fst body of
           Inr v \<Rightarrow> body
         | Inl err \<Rightarrow>
             (Inl err,
              (snd body)\<lparr>tick := Suc (tick (snd body)),
                console := console (snd body) @
                  [(Err, [T ''0slot execution error after '',
                          Secs ((now env (tick (snd body)) - now env (tick w)) / 1000),
                          T '' seconds:'', E err])]\<rparr>))"
  by (simp add: executeSwapWithOSlot_def io_bind_now io_catch_def io_bind_elapsed io_then_err
      io_throw_def Let_def split: prod.splits sum.splits)

lemma executeSwapWithOSlot_2_rethrows:
  "executeSwapWithOSlot_2 env b64 c sign e w =
     (let body = executeSwapWithOSlot_2_try env (now env (tick w)) b64 sign e
                   (w\<lparr>tick := Suc (tick w)\<rparr>)
      in case fst body of
           Inr v \<Rightarrow> body
         | Inl err \<Rightarrow>
             (Inl err,
              (snd body)\<lparr>tick := Suc (tick (snd body)),
                console := console (snd body) @
                  [(Err, [T ''0slot execution error after '',
                          Secs ((now env (tick (snd body)) - now env (tick w)) / 1000),
                          T '' seconds:'', E err])]\<rparr>))"
  by (simp add: executeSwapWithOSlot_2_def io_bind_now io_catch_def io_bind_elapsed io_then_err
      io_throw_def Let_def split: prod.splits sum.splits)

lemma signed_bytesD:
  assumes "signed_bytes env b64 sign = Some bytes"
  obtains tx stx where "deserialize env b64 = Inr tx" "sign tx = Inr stx"
    "serialize env stx = Inr bytes"
  using assms by (auto simp: signed_bytes_def split: sum.splits)

lemma broadcasts_bind_send_raw:
  assumes "\<And>v. silent (f v)"
  shows "broadcasts (snd (io_bind (send_raw env c bytes opts) f w)) = broadcasts w @ [(bytes, opts)]"
    and "sent (snd (io_bind (send_raw env c bytes opts) f w)) = sent w"
  using assms by (auto simp: io_bind_send_raw silent_def split: sum.splits)

lemma trace_try_2:
  "broadcasts (snd (executeSwapWithOSlot_2_try env t0 b64 sign e w)) =
     (case signed_bytes env b64 sign of
        None \<Rightarrow> broadcasts w
      | Some bytes \<Rightarrow>
          (case new_Connection env e ''confirmed'' of
             Inl d \<Rightarrow> broadcasts w
           | Inr conn \<Rightarrow> broadcasts w @ [(bytes, \<lparr>skipPreflight = True, maxRetries = 0\<rparr>)]))
   \<and> sent (snd (executeSwapWithOSlot_2_try env t0 b64 sign e w)) = sent w"
proof (cases "deserialize env b64")
  case (Inl d)
  then show ?thesis
    unfolding executeSwapWithOSlot_2_try_def by (simp add: io_steps signed_bytes_def io_throw_def)
next
  case tx: (Inr tx)
  show ?thesis
  proof (cases "sign tx")
    case (Inl d)
    with tx show ?thesis
      unfolding executeSwapWithOSlot_2_try_def
      by (simp add: io_steps signed_bytes_def io_throw_def)
  next
    case stx: (Inr stx)
    show ?thesis
    proof (cases "serialize env stx")
      case (Inl d)
      with tx stx show ?thesis
        unfolding executeSwapWithOSlot_2_try_def
        by (simp add: io_steps signed_bytes_def io_throw_def)
    next
      case bytes: (Inr bytes)
      show ?thesis
      proof (cases "new_Connection env e ''confirmed''")
        case (Inl d)
        with tx stx bytes show ?thesis
          unfolding executeSwapWithOSlot_2_try_def
          by (simp add: io_steps signed_bytes_def io_throw_def)
      next
        case (Inr conn)
        with tx stx bytes show ?thesis
          unfolding executeSwapWithOSlot_2_try_def
          apply (simp add: io_bind_await_Inr io_then_log io_bind_now io_bind_elapsed Let_def
              signed_bytes_def)
          apply (subst broadcasts_bind_send_raw)
           apply (intro silent_intros)
          apply (subst broadcasts_bind_send_raw)
           apply (intro silent_intros)
          apply simp
          done
      qed
    qed
  qed
qed

lemma trace_executeSwapWithOSlot_2:
  "broadcasts (snd (executeSwapWithOSlot_2 env b64 c sign e w)) =
     (case signed_bytes env b64 sign of
        None \<Rightarrow> broadcasts w
      | Some bytes \<Rightarrow>
          (case new_Connection env e ''confirmed'' of
             Inl d \<Rightarrow> broadcasts w
           | Inr conn \<Rightarrow> broadcasts w @ [(bytes, \<lparr>skipPreflight = True, maxRetries = 0\<rparr>)]))"
  "sent (snd (executeSwapWithOSlot_2 env b64 c sign e w)) = sent w"
  unfolding executeSwapWithOSlot_2_def
  by (simp_all add: io_bind_now trace_try_2 sent_catch silent_intros
      split: option.splits sum.splits)

lemma unprintable_js_or_Str: "unprintable (js_or m (Str s)) = unprintable m"
  by (cases m) (simp_all add: js_or_def)

lemma submission_result_no_reply:
  assumes "relay_reply env b64 sign e = None"
  shows "\<exists>d. submission_result env b64 sign e = Inl (Foreign d)"
  using assms
  by (auto simp: relay_reply_def signed_bytes_def submission_result_def
      split: sum.splits option.splits)

text \<open>
  C8, as amended. In both listings, whatever the body of the outer \<^verbatim>\<open>try\<close> raises is what the
  call raises: the handler reads the clock, writes one console line with the seconds elapsed
  since the start and the error, and throws the same error; a value returned by the body
  is returned with nothing added. So the failure of a step (decoding, signing, serialising,
  the request to the relay, the connection, the broadcast) reaches the caller as it was
  raised. Nothing is tried twice: a call sends at most one request, or hands at most one
  transaction to \<^verbatim>\<open>sendRawTransaction\<close>, with \<^verbatim>\<open>maxRetries\<close> \<open>0\<close>. One error does not reach the
  caller: what the inner \<^verbatim>\<open>try\<close> around \<^verbatim>\<open>JSON.parse\<close> raises on an answer with another status
  than 200 is caught there, and the call fails with the generic message, the body text
  appended when there is some. A call ends in a value or in a failure, and the last two
  parts tell which. The failure has a kind of the specification only where the JSON-RPC
  listing throws it: RelayRejected on another status than 200 and on a truthy \<^verbatim>\<open>error\<close>,
  UnrecognizedResponse on a 200 answer with no truthy field. Every other failure has none:
  the failure of a step, a 200 body that is not JSON or is \<^verbatim>\<open>null\<close>, a value to print that has
  no string, and every failure of the listing that broadcasts through a connection.
\<close>

theorem submission_rethrows_unchanged:
  "(let body = executeSwapWithOSlot_try env (now env (tick w)) transactionBase64 signTransaction
                 endpoint (w\<lparr>tick := Suc (tick w)\<rparr>)
    in executeSwapWithOSlot env transactionBase64 connection signTransaction endpoint w =
       (case fst body of
          Inr v \<Rightarrow> body
        | Inl err \<Rightarrow>
            (Inl err,
             (snd body)\<lparr>tick := Suc (tick (snd body)),
               console := console (snd body) @
                 [(Err, [T ''0slot execution error after '',
                         Secs ((now env (tick (snd body)) - now env (tick w)) / 1000),
                         T '' seconds:'', E err])]\<rparr>)))
   \<and> (let body = executeSwapWithOSlot_2_try env (now env (tick w)) transactionBase64 signTransaction
                 endpoint (w\<lparr>tick := Suc (tick w)\<rparr>)
    in executeSwapWithOSlot_2 env transactionBase64 connection signTransaction endpoint w =
       (case fst body of
          Inr v \<Rightarrow> body
        | Inl err \<Rightarrow>
            (Inl err,
             (snd body)\<lparr>tick := Suc (tick (snd body)),
               console := console (snd body) @
                 [(Err, [T ''0slot execution error after '',
                         Secs ((now env (tick (snd body)) - now env (tick w)) / 1000),
                         T '' seconds:'', E err])]\<rparr>)))
   \<and> (deserialize env transactionBase64 = Inl d \<longrightarrow>
        fst (executeSwapWithOSlot env transactionBase64 connection signTransaction endpoint w)
          = Inl (Foreign d)
      \<and> fst (executeSwapWithOSlot_2 env transactionBase64 connection signTransaction endpoint w)
          = Inl (Foreign d))
   \<and> (deserialize env transactionBase64 = Inr tx \<and> signTransaction tx = Inl d \<longrightarrow>
        fst (executeSwapWithOSlot env transactionBase64 connection signTransaction endpoint w)
          = Inl (Foreign d)
      \<and> fst (executeSwapWithOSlot_2 env transactionBase64 connection signTransaction endpoint w)
          = Inl (Foreign d))
   \<and> (deserialize env transactionBase64 = Inr tx \<and> signTransaction tx = Inr stx
        \<and> serialize env stx = Inl d \<longrightarrow>
        fst (executeSwapWithOSlot env transactionBase64 connection signTransaction endpoint w)
          = Inl (Foreign d)
      \<and> fst (executeSwapWithOSlot_2 env transactionBase64 connection signTransaction endpoint w)
          = Inl (Foreign d))
   \<and> (signed_bytes env transactionBase64 signTransaction = Some bytes
        \<and> http env (relay_request env endpoint bytes) = Inl d \<longrightarrow>
        fst (executeSwapWithOSlot env transactionBase64 connection signTransaction endpoint w)
          = Inl (Foreign d))
   \<and> (signed_bytes env transactionBase64 signTransaction = Some bytes
        \<and> new_Connection env endpoint ''confirmed'' = Inl d \<longrightarrow>
        fst (executeSwapWithOSlot_2 env transactionBase64 connection signTransaction endpoint w)
          = Inl (Foreign d))
   \<and> (signed_bytes env transactionBase64 signTransaction = Some bytes
        \<and> new_Connection env endpoint ''confirmed'' = Inr conn
        \<and> sendRawTransaction env conn bytes \<lparr>skipPreflight = True, maxRetries = 0\<rparr> = Inl d \<longrightarrow>
        fst (executeSwapWithOSlot_2 env transactionBase64 connection signTransaction endpoint w)
          = Inl (Foreign d))
   \<and> length (sent (snd
        (executeSwapWithOSlot env transactionBase64 connection signTransaction endpoint w)))
        \<le> Suc (length (sent w))
   \<and> sent (snd
        (executeSwapWithOSlot_2 env transactionBase64 connection signTransaction endpoint w))
        = sent w
   \<and> broadcasts (snd
        (executeSwapWithOSlot_2 env transactionBase64 connection signTransaction endpoint w)) =
       (case signed_bytes env transactionBase64 signTransaction of
          None \<Rightarrow> broadcasts w
        | Some bytes \<Rightarrow>
            (case new_Connection env endpoint ''confirmed'' of
               Inl d \<Rightarrow> broadcasts w
             | Inr conn \<Rightarrow> broadcasts w @ [(bytes, \<lparr>skipPreflight = True, maxRetries = 0\<rparr>)]))
   \<and> (relay_reply env transactionBase64 signTransaction endpoint = Some response
        \<and> status response \<noteq> 200
        \<and> errorMessage_try response
              (''0slot execution failed: incorrect status code: '' @ show_nat (status response))
            = Inl raised \<longrightarrow>
        fst (executeSwapWithOSlot env transactionBase64 connection signTransaction endpoint w)
          = Inl (Error relay_status
              (if body_text response = []
               then ''0slot execution failed: incorrect status code: '' @ show_nat (status response)
               else ''0slot execution failed: incorrect status code: '' @ show_nat (status response)
                    @ '', '' @ body_text response)))
   \<and> outcome (executeSwapWithOSlot env transactionBase64 connection signTransaction endpoint w) =
       (case relay_reply env transactionBase64 signTransaction endpoint of
          None \<Rightarrow> Inl None
        | Some response \<Rightarrow>
            if status response \<noteq> 200 then
              (if unprintable (errorMessage response) then Inl None
               else Inl (Some RelayRejected))
            else
              (case body_json response of
                 None \<Rightarrow> Inl None
               | Some r \<Rightarrow>
                   if nullish r then Inl None
                   else if truthy (field r ''result'') then
                     (if unprintable (field r ''result'') then Inl None
                      else Inr (field r ''result''))
                   else if truthy (field r ''error'') then
                     (if unprintable (field (field r ''error'') ''message'') then Inl None
                      else Inl (Some RelayRejected))
                   else if truthy (field r ''signature'') then Inr (field r ''signature'')
                   else if truthy (field r ''txid'') then Inr (field r ''txid'')
                   else if truthy (field r ''txSignature'') then Inr (field r ''txSignature'')
                   else Inl (Some UnrecognizedResponse)))
   \<and> outcome (executeSwapWithOSlot_2 env transactionBase64 connection signTransaction endpoint w) =
       (case signed_bytes env transactionBase64 signTransaction of
          None \<Rightarrow> Inl None
        | Some bytes \<Rightarrow>
            (case new_Connection env endpoint ''confirmed'' of
               Inl d \<Rightarrow> Inl None
             | Inr conn \<Rightarrow>
                 (case sendRawTransaction env conn bytes \<lparr>skipPreflight = True, maxRetries = 0\<rparr> of
                    Inl d \<Rightarrow> Inl None
                  | Inr signature \<Rightarrow> Inr (Str signature))))"
proof (intro conjI impI; (elim conjE)?)
  show "let body = executeSwapWithOSlot_try env (now env (tick w)) transactionBase64 signTransaction
                 endpoint (w\<lparr>tick := Suc (tick w)\<rparr>)
    in executeSwapWithOSlot env transactionBase64 connection signTransaction endpoint w =
       (case fst body of
          Inr v \<Rightarrow> body
        | Inl err \<Rightarrow>
            (Inl err,
             (snd body)\<lparr>tick := Suc (tick (snd body)),
               console := console (snd body) @
                 [(Err, [T ''0slot execution error after '',
                         Secs ((now env (tick (snd body)) - now env (tick w)) / 1000),
                         T '' seconds:'', E err])]\<rparr>))"
    using executeSwapWithOSlot_rethrows [of env transactionBase64 connection signTransaction endpoint w]
    by (simp add: Let_def)
  show "let body = executeSwapWithOSlot_2_try env (now env (tick w)) transactionBase64 signTransaction
                 endpoint (w\<lparr>tick := Suc (tick w)\<rparr>)
    in executeSwapWithOSlot_2 env transactionBase64 connection signTransaction endpoint w =
       (case fst body of
          Inr v \<Rightarrow> body
        | Inl err \<Rightarrow>
            (Inl err,
             (snd body)\<lparr>tick := Suc (tick (snd body)),
               console := console (snd body) @
                 [(Err, [T ''0slot execution error after '',
                         Secs ((now env (tick (snd body)) - now env (tick w)) / 1000),
                         T '' seconds:'', E err])]\<rparr>))"
    using executeSwapWithOSlot_2_rethrows [of env transactionBase64 connection signTransaction endpoint w]
    by (simp add: Let_def)
  show "length (sent (snd
        (executeSwapWithOSlot env transactionBase64 connection signTransaction endpoint w)))
        \<le> Suc (length (sent w))"
    by (simp add: sent_executeSwapWithOSlot split: option.splits)
  show "sent (snd
        (executeSwapWithOSlot_2 env transactionBase64 connection signTransaction endpoint w))
        = sent w"
    by (rule trace_executeSwapWithOSlot_2)
  show "broadcasts (snd
        (executeSwapWithOSlot_2 env transactionBase64 connection signTransaction endpoint w)) =
       (case signed_bytes env transactionBase64 signTransaction of
          None \<Rightarrow> broadcasts w
        | Some bytes \<Rightarrow>
            (case new_Connection env endpoint ''confirmed'' of
               Inl d \<Rightarrow> broadcasts w
             | Inr conn \<Rightarrow> broadcasts w @ [(bytes, \<lparr>skipPreflight = True, maxRetries = 0\<rparr>)]))"
    by (rule trace_executeSwapWithOSlot_2)
  show "outcome (executeSwapWithOSlot_2 env transactionBase64 connection signTransaction endpoint w) =
       (case signed_bytes env transactionBase64 signTransaction of
          None \<Rightarrow> Inl None
        | Some bytes \<Rightarrow>
            (case new_Connection env endpoint ''confirmed'' of
               Inl d \<Rightarrow> Inl None
             | Inr conn \<Rightarrow>
                 (case sendRawTransaction env conn bytes \<lparr>skipPreflight = True, maxRetries = 0\<rparr> of
                    Inl d \<Rightarrow> Inl None
                  | Inr signature \<Rightarrow> Inr (Str signature))))"
    by (simp add: outcome_def fst_executeSwapWithOSlot_2 submission_result_2_def signed_bytes_def
        split: sum.splits)
  show "outcome (executeSwapWithOSlot env transactionBase64 connection signTransaction endpoint w) =
       (case relay_reply env transactionBase64 signTransaction endpoint of
          None \<Rightarrow> Inl None
        | Some response \<Rightarrow>
            if status response \<noteq> 200 then
              (if unprintable (errorMessage response) then Inl None
               else Inl (Some RelayRejected))
            else
              (case body_json response of
                 None \<Rightarrow> Inl None
               | Some r \<Rightarrow>
                   if nullish r then Inl None
                   else if truthy (field r ''result'') then
                     (if unprintable (field r ''result'') then Inl None
                      else Inr (field r ''result''))
                   else if truthy (field r ''error'') then
                     (if unprintable (field (field r ''error'') ''message'') then Inl None
                      else Inl (Some RelayRejected))
                   else if truthy (field r ''signature'') then Inr (field r ''signature'')
                   else if truthy (field r ''txid'') then Inr (field r ''txid'')
                   else if truthy (field r ''txSignature'') then Inr (field r ''txSignature'')
                   else Inl (Some UnrecognizedResponse)))"
  proof (cases "relay_reply env transactionBase64 signTransaction endpoint")
    case None
    from submission_result_no_reply [OF None] obtain d where
      "submission_result env transactionBase64 signTransaction endpoint = Inl (Foreign d)" ..
    with None show ?thesis by (simp add: outcome_def fst_executeSwapWithOSlot)
  next
    case (Some response)
    show ?thesis
      by (simp add: outcome_def fst_executeSwapWithOSlot submission_result_reply [OF Some] Some
          relay_result_def Let_def unprintable_js_or_Str split: option.splits)
  qed
next
  assume r: "relay_reply env transactionBase64 signTransaction endpoint = Some response"
    and s: "status response \<noteq> 200"
    and t: "errorMessage_try response
              (''0slot execution failed: incorrect status code: '' @ show_nat (status response))
            = Inl raised"
  from t have "errorMessage response =
      Str (if body_text response = []
           then ''0slot execution failed: incorrect status code: '' @ show_nat (status response)
           else ''0slot execution failed: incorrect status code: '' @ show_nat (status response)
                @ '', '' @ body_text response)"
    by (simp add: errorMessage_def Let_def)
  then show "fst (executeSwapWithOSlot env transactionBase64 connection signTransaction endpoint w)
          = Inl (Error relay_status
              (if body_text response = []
               then ''0slot execution failed: incorrect status code: '' @ show_nat (status response)
               else ''0slot execution failed: incorrect status code: '' @ show_nat (status response)
                    @ '', '' @ body_text response))"
    by (simp add: relay_other_status [OF r s])
next
  assume "signed_bytes env transactionBase64 signTransaction = Some bytes"
    and "http env (relay_request env endpoint bytes) = Inl d"
  then show "fst (executeSwapWithOSlot env transactionBase64 connection signTransaction endpoint w)
          = Inl (Foreign d)"
    by (auto elim!: signed_bytesD simp: fst_executeSwapWithOSlot submission_result_def)
next
  assume "signed_bytes env transactionBase64 signTransaction = Some bytes"
    and "new_Connection env endpoint ''confirmed'' = Inl d"
  then show "fst (executeSwapWithOSlot_2 env transactionBase64 connection signTransaction endpoint w)
          = Inl (Foreign d)"
    by (auto elim!: signed_bytesD simp: fst_executeSwapWithOSlot_2 submission_result_2_def)
next
  assume "signed_bytes env transactionBase64 signTransaction = Some bytes"
    and "new_Connection env endpoint ''confirmed'' = Inr conn"
    and "sendRawTransaction env conn bytes \<lparr>skipPreflight = True, maxRetries = 0\<rparr> = Inl d"
  then show "fst (executeSwapWithOSlot_2 env transactionBase64 connection signTransaction endpoint w)
          = Inl (Foreign d)"
    by (auto elim!: signed_bytesD simp: fst_executeSwapWithOSlot_2 submission_result_2_def)
qed (simp_all add: fst_executeSwapWithOSlot fst_executeSwapWithOSlot_2 submission_result_def
       submission_result_2_def)

theorem submission_rethrows_unchanged_witness:
  \<open>deserialize (stub_env (reply 200 ''OK'' [] None)) (Str ''dHg='') = Inr ''dHg=''
   \<and> stub_reject ''dHg='' = Inl ''User rejected the request''
   \<and> fst (executeSwapWithOSlot (stub_env (reply 200 ''OK'' [] None)) (Str ''dHg='') ()
        stub_reject ''https://relay.example'' world0)
      = Inl (Foreign ''User rejected the request'')
   \<and> fst (executeSwapWithOSlot_2 (stub_env (reply 200 ''OK'' [] None)) (Str ''dHg='') ()
        stub_reject ''https://relay.example'' world0)
      = Inl (Foreign ''User rejected the request'')
   \<and> console (snd (executeSwapWithOSlot (stub_env (reply 200 ''OK'' [] None)) (Str ''dHg='') ()
        stub_reject ''https://relay.example'' world0))
      = [(Log, [T ''Starting 0slot transaction execution...'']),
         (Err, [T ''0slot execution error after '', Secs (2 / 1000), T '' seconds:'',
                E (Foreign ''User rejected the request'')])]
   \<and> sent (snd (executeSwapWithOSlot (stub_env (reply 200 ''OK'' [] None)) (Str ''dHg='') ()
        stub_reject ''https://relay.example'' world0)) = []
   \<and> outcome (executeSwapWithOSlot (stub_env (reply 200 ''OK'' [] None)) (Str ''dHg='') ()
        stub_reject ''https://relay.example'' world0) = Inl None
   \<and> outcome (executeSwapWithOSlot_2 (stub_env (reply 200 ''OK'' [] None)) (Str ''dHg='') ()
        stub_reject ''https://relay.example'' world0) = Inl None
   \<and> relay_reply (stub_env (reply 502 ''Bad Gateway'' ''upstream down'' None)) (Str ''dHg='')
       stub_sign ''https://relay.example''
     = Some \<lparr>status = 502, statusText = ''Bad Gateway'', body_text = ''upstream down'',
              body_json = None\<rparr>
   \<and> errorMessage_try
       \<lparr>status = 502, statusText = ''Bad Gateway'', body_text = ''upstream down'',
        body_json = None\<rparr>
       ''0slot execution failed: incorrect status code: 502'' = Inl SyntaxError
   \<and> fst (executeSwapWithOSlot (stub_env (reply 502 ''Bad Gateway'' ''upstream down'' None))
        (Str ''dHg='') () stub_sign ''https://relay.example'' world0)
      = Inl (Error relay_status
          ''0slot execution failed: incorrect status code: 502, upstream down'')
   \<and> outcome (executeSwapWithOSlot (stub_env (reply 502 ''Bad Gateway'' ''upstream down'' None))
        (Str ''dHg='') () stub_sign ''https://relay.example'' world0) = Inl (Some RelayRejected)
   \<and> outcome (executeSwapWithOSlot_2 (stub_env (reply 502 ''Bad Gateway'' ''upstream down'' None))
        (Str ''dHg='') () stub_sign ''https://relay.example'' world0) = Inr (Str ''sig1'')\<close>
  using submission_rethrows_unchanged
    [where env = "stub_env (reply 200 ''OK'' [] None)" and ?transactionBase64.0 = "Str ''dHg=''"
       and connection = "()" and signTransaction = stub_reject
       and endpoint = "''https://relay.example''" and w = world0
       and tx = "''dHg=''" and d = "''User rejected the request''"
       and stx = "[]" and bytes = "[]" and conn = "()"
       and response = "\<lparr>status = 200, statusText = ''OK'', body_text = [], body_json = None\<rparr>"
       and raised = SyntaxError]
    submission_rethrows_unchanged
    [where env = "stub_env (reply 502 ''Bad Gateway'' ''upstream down'' None)"
       and ?transactionBase64.0 = "Str ''dHg=''"
       and connection = "()" and signTransaction = stub_sign
       and endpoint = "''https://relay.example''" and w = world0
       and tx = "''dHg=''" and d = "''none''"
       and stx = "''signed''" and bytes = "[]" and conn = "()"
       and response = "\<lparr>status = 502, statusText = ''Bad Gateway'', body_text = ''upstream down'',
              body_json = None\<rparr>"
       and raised = SyntaxError, THEN conjunct2, THEN conjunct2]
  apply -
  apply (elim conjE)
  apply (simp add: stub_defs stub_reject_def executeSwapWithOSlot_try_def io_defs Let_def
      relay_reply_def signed_bytes_def relay_request_def errorMessage_def errorMessage_try_def
      show_nat.simps)
  done

text \<open>
  C8 as stated fails twice. The relay answers 200 with a body that is not JSON: the call
  fails with the error of \<^verbatim>\<open>response.json()\<close>, which is none of the kinds of the specification.
  The relay answers 502 with a body that is not JSON: \<^verbatim>\<open>JSON.parse\<close> raises inside the inner
  \<^verbatim>\<open>try\<close>, the inner handler keeps that error, and the caller gets the error of the status
  instead.
\<close>

theorem submission_untyped_and_swallowed_counterexample:
  \<open>fst (executeSwapWithOSlot (stub_env (reply 200 ''OK'' ''<html>'' None))
        (Str ''dHg='') () stub_sign ''https://relay.example'' world0) = Inl SyntaxError
   \<and> outcome (executeSwapWithOSlot (stub_env (reply 200 ''OK'' ''<html>'' None))
        (Str ''dHg='') () stub_sign ''https://relay.example'' world0) = Inl None
   \<and> errorMessage_try
       \<lparr>status = 502, statusText = ''Bad Gateway'', body_text = ''upstream down'',
        body_json = None\<rparr>
       ''0slot execution failed: incorrect status code: 502'' = Inl SyntaxError
   \<and> fst (executeSwapWithOSlot (stub_env (reply 502 ''Bad Gateway'' ''upstream down'' None))
        (Str ''dHg='') () stub_sign ''https://relay.example'' world0)
      = Inl (Error relay_status
          ''0slot execution failed: incorrect status code: 502, upstream down'')\<close>
  by (simp add: outcome_def fst_executeSwapWithOSlot submission_result_def relay_request_def
      errorMessage_def errorMessage_try_def stub_defs Let_def show_nat.simps)

subsection \<open>Fields that hold the empty string\<close>

lemma yields_return: "P x \<Longrightarrow> yields P (io_return x)"
  by (simp add: yields_def io_return_def)

lemma yields_throw: "yields P (io_throw e)"
  by (simp add: yields_def io_throw_def)

lemma yields_bind: "(\<And>x. yields P (f x)) \<Longrightarrow> yields P (io_bind m f)"
  unfolding yields_def io_bind_def by (auto split: prod.splits sum.splits)

lemma yields_then: "yields P k \<Longrightarrow> yields P (io_then m k)"
  by (simp add: io_then_def yields_bind)

lemma yields_catch: "yields P m \<Longrightarrow> (\<And>e. yields P (h e)) \<Longrightarrow> yields P (io_catch m h)"
  unfolding yields_def io_catch_def by (auto split: prod.splits sum.splits) (metis fst_conv)+

lemma yields_if:
  "(c \<Longrightarrow> yields P a) \<Longrightarrow> (\<not> c \<Longrightarrow> yields P b) \<Longrightarrow> yields P (if c then a else b)"
  by simp

lemmas yields_intros =
  yields_bind yields_then yields_catch yields_if yields_throw yields_return

lemma yields_on_responseData: "yields truthy (on_responseData env r rt tt)"
  unfolding on_responseData_def by (intro yields_intros; assumption)

lemma yields_executeSwapWithOSlot: "yields truthy (executeSwapWithOSlot env b64 c sign e)"
  unfolding executeSwapWithOSlot_def executeSwapWithOSlot_try_def Let_def
  by (intro yields_intros yields_on_responseData)

lemma yields_fetchSwapTransaction_with:
  "yields truthy (fetchSwapTransaction_with host env e p u)"
  unfolding fetchSwapTransaction_with_def fetchSwapTransaction_try_def custom_branch_def
    jupiter_branch_def legacy_branch_def Let_def
  by (intro yields_intros; assumption)

lemma relay_result_http: "relay_result (env\<lparr>http := net\<rparr>) r = relay_result env r"
  by (simp add: relay_result_def Let_def)

lemma map_of_without: "map_of (without k fs) k' = (if k' = k then None else map_of fs k')"
  by (induction fs) (auto simp: without_def)

lemma field_blank:
  "field (Obj ((k, Str []) # fs)) k' = (if k' = k then Str [] else field (Obj fs) k')"
  by (simp add: field_def)

lemma field_without:
  "field (Obj (without k fs)) k' = (if k' = k then Undefined else field (Obj fs) k')"
  by (simp add: field_def map_of_without)

lemma field_cons:
  "field (Obj ((k, v) # fs)) k' = (if k' = k then v else field (Obj fs) k')"
  by (simp add: field_def)

lemma field_Str: "field (Str s) k = Undefined"
  by (simp add: field_def)

lemma field_Undefined: "field Undefined k = Undefined"
  by (simp add: field_def)

lemma blank_200:
  assumes "k \<in> set [''result'', ''error'', ''signature'', ''txid'', ''txSignature'']"
    and "relay_reply env b64 sign e = Some resp" and "status resp = 200"
    and "body_json resp = Some (Obj ((k, Str []) # fs))"
    and "relay_reply (env\<lparr>http := net\<rparr>) b64 sign e = Some resp'" and "status resp' = 200"
    and "body_json resp' = Some (Obj (without k fs))"
  shows "fst (executeSwapWithOSlot env b64 c sign e w) =
         fst (executeSwapWithOSlot (env\<lparr>http := net\<rparr>) b64 c sign e w)"
proof -
  from assms(1) consider "k = ''result''" | "k = ''error''" | "k = ''signature''"
    | "k = ''txid''" | "k = ''txSignature''" by auto
  then have "relay_result env (Obj ((k, Str []) # fs)) = relay_result env (Obj (without k fs))"
    by cases (simp_all add: relay_result_def nullish_def field_cons field_without Let_def)
  then show ?thesis
    unfolding relay_200 [OF assms(2-4)] relay_200 [OF assms(5-7)] relay_result_http .
qed

lemma blank_error_message:
  assumes "relay_reply env b64 sign e = Some resp" and "status resp = 200"
    and "body_json resp = Some (Obj ((''error'', Obj ((''message'', Str []) # es)) # fs))"
    and "relay_reply (env\<lparr>http := net\<rparr>) b64 sign e = Some resp'" and "status resp' = 200"
    and "body_json resp' = Some (Obj ((''error'', Obj (without ''message'' es)) # fs))"
  shows "outcome (executeSwapWithOSlot env b64 c sign e w) =
         outcome (executeSwapWithOSlot (env\<lparr>http := net\<rparr>) b64 c sign e w)"
    and "\<not> truthy (field (Obj fs) ''result'') \<Longrightarrow>
         fst (executeSwapWithOSlot env b64 c sign e w) =
           Inl (Error relay_error
             (''0slot error: '' @ JSON_stringify env (Obj ((''message'', Str []) # es))))"
    and "\<not> truthy (field (Obj fs) ''result'') \<Longrightarrow>
         fst (executeSwapWithOSlot (env\<lparr>http := net\<rparr>) b64 c sign e w) =
           Inl (Error relay_error
             (''0slot error: '' @ JSON_stringify env (Obj (without ''message'' es))))"
  unfolding outcome_def relay_200 [OF assms(1-3)] relay_200 [OF assms(4-6)] relay_result_http
  by (simp_all add: relay_result_def nullish_def field_cons field_without Let_def js_or_def)

lemma errorMessage_blank:
  assumes "k \<in> set [''error'', ''message'']"
    and "status resp' = status resp"
    and "body_json resp = Some (Obj ((k, Str []) # fs))"
    and "body_json resp' = Some (Obj (without k fs))"
  shows "errorMessage resp = errorMessage resp'"
proof -
  from assms(1) consider "k = ''error''" | "k = ''message''" by auto
  then show ?thesis
    by cases
      (simp_all add: errorMessage_cases Let_def nullish_def field_cons field_without assms(2-4))
qed

lemma errorMessage_blank_nested:
  assumes "k \<in> set [''message'', ''code'']"
    and "status resp' = status resp"
    and "body_json resp = Some (Obj ((''error'', Obj ((k, Str []) # es)) # fs))"
    and "body_json resp' = Some (Obj ((''error'', Obj (without k es)) # fs))"
  shows "errorMessage resp = errorMessage resp'"
proof -
  from assms(1) consider "k = ''message''" | "k = ''code''" by auto
  then show ?thesis
    by cases
      (simp_all add: errorMessage_cases Let_def nullish_def field_cons field_without js_or_def
        assms(2-4))
qed

lemma blank_legacy:
  assumes "k \<in> set [''transaction'', ''swapTransaction'', ''tx'']"
    and "\<not> aggregator_marker host e" and "\<not> quote_marker e"
    and "\<forall>req. req_method req = ''POST'' \<longrightarrow> http env req = Inr resp"
    and "ok resp" and "body_json resp = Some (Obj ((k, Str []) # fs))"
    and "\<forall>req. req_method req = ''POST'' \<longrightarrow> net req = Inr resp'"
    and "ok resp'" and "body_json resp' = Some (Obj (without k fs))"
  shows "fst (fetchSwapTransaction_with host env e p u w) =
         fst (fetchSwapTransaction_with host (env\<lparr>http := net\<rparr>) e p u w)"
proof -
  have nn: "\<not> nullish (Obj xs)" for xs by (simp add: nullish_def)
  have 1: "fst (legacy_branch env e p w) =
    (if truthy (field (Obj ((k, Str []) # fs)) ''transaction'')
     then Inr (field (Obj ((k, Str []) # fs)) ''transaction'')
     else if truthy (field (Obj ((k, Str []) # fs)) ''swapTransaction'')
     then Inr (field (Obj ((k, Str []) # fs)) ''swapTransaction'')
     else if truthy (field (Obj ((k, Str []) # fs)) ''tx'')
     then Inr (field (Obj ((k, Str []) # fs)) ''tx'')
     else Inl (Error legacy_format ''Invalid response format from swap endpoint''))"
    using assms(4) by (intro legacy_2xx [OF _ assms(5,6) nn]) simp
  have 2: "fst (legacy_branch (env\<lparr>http := net\<rparr>) e p w) =
    (if truthy (field (Obj (without k fs)) ''transaction'')
     then Inr (field (Obj (without k fs)) ''transaction'')
     else if truthy (field (Obj (without k fs)) ''swapTransaction'')
     then Inr (field (Obj (without k fs)) ''swapTransaction'')
     else if truthy (field (Obj (without k fs)) ''tx'')
     then Inr (field (Obj (without k fs)) ''tx'')
     else Inl (Error legacy_format ''Invalid response format from swap endpoint''))"
    using assms(7) by (intro legacy_2xx [OF _ assms(8,9) nn]) simp
  show ?thesis
    unfolding fst_fetchSwapTransaction_with try_legacy [OF assms(2,3)] 1 2
    using assms(1) by (auto simp: field_blank field_without)
qed

lemma blank_jupiter:
  assumes "\<not> aggregator_marker host e" and "quote_marker e"
    and "\<not> nullish p" and "\<not> nullish (field p ''amount'')"
    and pp: "printable_params p"
    and "\<forall>req. req_method req = ''GET'' \<longrightarrow> http env req = Inr qresp"
    and "\<forall>req. req_method req = ''GET'' \<longrightarrow> net req = Inr qresp"
    and "ok qresp" and "body_json qresp = Some q"
    and "\<forall>req. req_method req = ''POST'' \<longrightarrow> http env req = Inr resp"
    and "ok resp" and "body_json resp = Some (Obj ((''swapTransaction'', Str []) # fs))"
    and "\<forall>req. req_method req = ''POST'' \<longrightarrow> net req = Inr resp'"
    and "ok resp'" and "body_json resp' = Some (Obj (without ''swapTransaction'' fs))"
  shows "fst (fetchSwapTransaction_with host env e p u w) =
         fst (fetchSwapTransaction_with host (env\<lparr>http := net\<rparr>) e p u w)"
proof -
  have nn: "\<not> nullish (Obj xs)" for xs by (simp add: nullish_def)
  have 1: "fst (jupiter_branch env e p u w) =
    (if truthy (field (Obj ((''swapTransaction'', Str []) # fs)) ''swapTransaction'')
     then Inr (field (Obj ((''swapTransaction'', Str []) # fs)) ''swapTransaction'')
     else Inl (Error swap_format ''Invalid response format from Jupiter swap API''))"
    using assms(6,10)
    by (intro jupiter_2xx [OF assms(3,4) pp _ assms(8,9) _ assms(11,12) nn]) simp_all
  have 2: "fst (jupiter_branch (env\<lparr>http := net\<rparr>) e p u w) =
    (if truthy (field (Obj (without ''swapTransaction'' fs)) ''swapTransaction'')
     then Inr (field (Obj (without ''swapTransaction'' fs)) ''swapTransaction'')
     else Inl (Error swap_format ''Invalid response format from Jupiter swap API''))"
    using assms(7,13)
    by (intro jupiter_2xx [OF assms(3,4) pp _ assms(8,9) _ assms(14,15) nn]) simp_all
  show ?thesis
    unfolding fst_fetchSwapTransaction_with try_jupiter [OF assms(1,2)] 1 2
    by (simp add: field_blank field_without)
qed

lemma blank_custom:
  assumes "aggregator_marker host e"
    and "\<not> nullish p" and "\<not> nullish (field p ''amount'')"
    and pp: "printable_params p" and pk: "\<not> unprintable u"
    and "\<forall>req. req_method req = ''GET'' \<longrightarrow> http env req = Inr resp"
    and "ok resp" and "body_json resp = Some r"
    and "\<forall>req. req_method req = ''GET'' \<longrightarrow> net req = Inr resp'"
    and "ok resp'" and "body_json resp' = Some r'"
    and shape: "r = Obj ((''data'', Str []) # fs) \<and> r' = Obj (without ''data'' fs)
         \<or> r = Obj ((''data'', Obj ((''swapData'', Str []) # ds)) # fs)
           \<and> r' = Obj ((''data'', Obj (without ''swapData'' ds)) # fs)
         \<or> r = Obj ((''data'', Obj ((''quote'', Str []) # ds)) # fs)
           \<and> r' = Obj ((''data'', Obj (without ''quote'' ds)) # fs)"
  shows "fst (fetchSwapTransaction_with host env e p u w) =
         fst (fetchSwapTransaction_with host (env\<lparr>http := net\<rparr>) e p u w)"
proof -
  from shape have nn: "\<not> nullish r" "\<not> nullish r'" by (auto simp: nullish_def)
  have 1: "fst (custom_branch env e p u w) =
    (if truthy (field r ''data'') \<and> truthy (field (field r ''data'') ''swapData'')
     then Inr (field (field r ''data'') ''swapData'')
     else Inl (Error aggregator_format
            ''Invalid response format from swap endpoint. Expected data.swapData''))"
    using assms(6) by (intro custom_2xx [OF assms(2,3) pp pk _ assms(7,8) nn(1)]) simp
  have 2: "fst (custom_branch (env\<lparr>http := net\<rparr>) e p u w) =
    (if truthy (field r' ''data'') \<and> truthy (field (field r' ''data'') ''swapData'')
     then Inr (field (field r' ''data'') ''swapData'')
     else Inl (Error aggregator_format
            ''Invalid response format from swap endpoint. Expected data.swapData''))"
    using assms(9) by (intro custom_2xx [OF assms(2,3) pp pk _ assms(10,11) nn(2)]) simp
  show ?thesis
    unfolding fst_fetchSwapTransaction_with try_custom [OF assms(1)] 1 2
    using shape by (auto simp: field_cons field_without field_Str field_Undefined)
qed

text \<open>
  C9, as amended. Every probe of a field of a response tests the truthiness of its value.
  For each field probed but one, a response that holds the empty string there gives the same
  result as the response without the field: the five fields of a 200 answer of the relay;
  \<^verbatim>\<open>error\<close>, \<^verbatim>\<open>message\<close>, \<^verbatim>\<open>error.message\<close> and \<^verbatim>\<open>error.code\<close> of an answer with another status;
  the three fields of a legacy provider; \<^verbatim>\<open>swapTransaction\<close> of the swap step; \<^verbatim>\<open>data\<close>,
  \<^verbatim>\<open>data.swapData\<close> and \<^verbatim>\<open>data.quote\<close> of the custom aggregator. The one is \<^verbatim>\<open>error.message\<close> of a
  200 answer of the relay: with an empty message as with none, the call fails with
  RelayRejected (or returns the truthy \<^verbatim>\<open>result\<close>), but the text of the error is the JSON text
  of the \<^verbatim>\<open>error\<close> object, which shows the empty message when it is there. And neither the
  JSON-RPC submission nor \<^verbatim>\<open>fetchSwapTransaction\<close> ever returns the empty string. The second
  run is the first with the network \<open>net\<close> in place of the network of \<open>env\<close>.
\<close>

theorem empty_string_field_as_absent:
  "(k \<in> set [''result'', ''error'', ''signature'', ''txid'', ''txSignature'']
      \<and> relay_reply env transactionBase64 signTransaction endpoint = Some response
      \<and> status response = 200 \<and> body_json response = Some (Obj ((k, Str []) # fs))
      \<and> relay_reply (env\<lparr>http := net\<rparr>) transactionBase64 signTransaction endpoint
            = Some response'
      \<and> status response' = 200 \<and> body_json response' = Some (Obj (without k fs))
    \<longrightarrow> fst (executeSwapWithOSlot env transactionBase64 connection signTransaction endpoint w) =
        fst (executeSwapWithOSlot (env\<lparr>http := net\<rparr>) transactionBase64 connection
               signTransaction endpoint w))
   \<and> (relay_reply env transactionBase64 signTransaction endpoint = Some response
      \<and> status response = 200
      \<and> body_json response = Some (Obj ((''error'', Obj ((''message'', Str []) # es)) # fs))
      \<and> relay_reply (env\<lparr>http := net\<rparr>) transactionBase64 signTransaction endpoint
            = Some response'
      \<and> status response' = 200
      \<and> body_json response' = Some (Obj ((''error'', Obj (without ''message'' es)) # fs))
    \<longrightarrow> outcome (executeSwapWithOSlot env transactionBase64 connection signTransaction endpoint w) =
        outcome (executeSwapWithOSlot (env\<lparr>http := net\<rparr>) transactionBase64 connection
               signTransaction endpoint w)
      \<and> (\<not> truthy (field (Obj fs) ''result'') \<longrightarrow>
          fst (executeSwapWithOSlot env transactionBase64 connection signTransaction endpoint w) =
            Inl (Error relay_error
              (''0slot error: '' @ JSON_stringify env (Obj ((''message'', Str []) # es))))
        \<and> fst (executeSwapWithOSlot (env\<lparr>http := net\<rparr>) transactionBase64 connection
               signTransaction endpoint w) =
            Inl (Error relay_error
              (''0slot error: '' @ JSON_stringify env (Obj (without ''message'' es))))))
   \<and> (relay_reply env transactionBase64 signTransaction endpoint = Some response
      \<and> status response \<noteq> 200
      \<and> relay_reply (env\<lparr>http := net\<rparr>) transactionBase64 signTransaction endpoint
            = Some response'
      \<and> status response' = status response
      \<and> (k \<in> set [''error'', ''message'']
            \<and> body_json response = Some (Obj ((k, Str []) # fs))
            \<and> body_json response' = Some (Obj (without k fs))
          \<or> k \<in> set [''message'', ''code'']
            \<and> body_json response = Some (Obj ((''error'', Obj ((k, Str []) # es)) # fs))
            \<and> body_json response' = Some (Obj ((''error'', Obj (without k es)) # fs)))
    \<longrightarrow> fst (executeSwapWithOSlot env transactionBase64 connection signTransaction endpoint w) =
        fst (executeSwapWithOSlot (env\<lparr>http := net\<rparr>) transactionBase64 connection
               signTransaction endpoint w))
   \<and> (k \<in> set [''transaction'', ''swapTransaction'', ''tx'']
      \<and> \<not> aggregator_marker host swapEndpoint \<and> \<not> quote_marker swapEndpoint
      \<and> (\<forall>req. req_method req = ''POST'' \<longrightarrow> http env req = Inr response)
      \<and> ok response \<and> body_json response = Some (Obj ((k, Str []) # fs))
      \<and> (\<forall>req. req_method req = ''POST'' \<longrightarrow> net req = Inr response')
      \<and> ok response' \<and> body_json response' = Some (Obj (without k fs))
    \<longrightarrow> fst (fetchSwapTransaction_with host env swapEndpoint swapParams userPublicKey w) =
        fst (fetchSwapTransaction_with host (env\<lparr>http := net\<rparr>) swapEndpoint swapParams
               userPublicKey w))
   \<and> (\<not> aggregator_marker host swapEndpoint \<and> quote_marker swapEndpoint
      \<and> \<not> nullish swapParams \<and> \<not> nullish (field swapParams ''amount'')
      \<and> printable_params swapParams
      \<and> (\<forall>req. req_method req = ''GET'' \<longrightarrow> http env req = Inr quoteResponse)
      \<and> (\<forall>req. req_method req = ''GET'' \<longrightarrow> net req = Inr quoteResponse)
      \<and> ok quoteResponse \<and> body_json quoteResponse = Some quoteData
      \<and> (\<forall>req. req_method req = ''POST'' \<longrightarrow> http env req = Inr response)
      \<and> ok response \<and> body_json response = Some (Obj ((''swapTransaction'', Str []) # fs))
      \<and> (\<forall>req. req_method req = ''POST'' \<longrightarrow> net req = Inr response')
      \<and> ok response' \<and> body_json response' = Some (Obj (without ''swapTransaction'' fs))
    \<longrightarrow> fst (fetchSwapTransaction_with host env swapEndpoint swapParams userPublicKey w) =
        fst (fetchSwapTransaction_with host (env\<lparr>http := net\<rparr>) swapEndpoint swapParams
               userPublicKey w))
   \<and> (aggregator_marker host swapEndpoint
      \<and> \<not> nullish swapParams \<and> \<not> nullish (field swapParams ''amount'')
      \<and> printable_params swapParams \<and> \<not> unprintable userPublicKey
      \<and> (\<forall>req. req_method req = ''GET'' \<longrightarrow> http env req = Inr response)
      \<and> ok response \<and> body_json response = Some r
      \<and> (\<forall>req. req_method req = ''GET'' \<longrightarrow> net req = Inr response')
      \<and> ok response' \<and> body_json response' = Some r'
      \<and> (r = Obj ((''data'', Str []) # fs) \<and> r' = Obj (without ''data'' fs)
          \<or> r = Obj ((''data'', Obj ((''swapData'', Str []) # ds)) # fs)
            \<and> r' = Obj ((''data'', Obj (without ''swapData'' ds)) # fs)
          \<or> r = Obj ((''data'', Obj ((''quote'', Str []) # ds)) # fs)
            \<and> r' = Obj ((''data'', Obj (without ''quote'' ds)) # fs))
    \<longrightarrow> fst (fetchSwapTransaction_with host env swapEndpoint swapParams userPublicKey w) =
        fst (fetchSwapTransaction_with host (env\<lparr>http := net\<rparr>) swapEndpoint swapParams
               userPublicKey w))
   \<and> fst (executeSwapWithOSlot env transactionBase64 connection signTransaction endpoint w)
        \<noteq> Inr (Str [])
   \<and> fst (fetchSwapTransaction_with host env swapEndpoint swapParams userPublicKey w)
        \<noteq> Inr (Str [])"
proof (intro conjI impI; (elim conjE)?)
  assume "k \<in> set [''result'', ''error'', ''signature'', ''txid'', ''txSignature'']"
    "relay_reply env transactionBase64 signTransaction endpoint = Some response"
    "status response = 200" "body_json response = Some (Obj ((k, Str []) # fs))"
    "relay_reply (env\<lparr>http := net\<rparr>) transactionBase64 signTransaction endpoint = Some response'"
    "status response' = 200" "body_json response' = Some (Obj (without k fs))"
  then show "fst (executeSwapWithOSlot env transactionBase64 connection signTransaction endpoint w) =
        fst (executeSwapWithOSlot (env\<lparr>http := net\<rparr>) transactionBase64 connection
               signTransaction endpoint w)"
    by (rule blank_200)
next
  assume h: "relay_reply env transactionBase64 signTransaction endpoint = Some response"
    "status response = 200"
    "body_json response = Some (Obj ((''error'', Obj ((''message'', Str []) # es)) # fs))"
    "relay_reply (env\<lparr>http := net\<rparr>) transactionBase64 signTransaction endpoint = Some response'"
    "status response' = 200"
    "body_json response' = Some (Obj ((''error'', Obj (without ''message'' es)) # fs))"
  show "outcome (executeSwapWithOSlot env transactionBase64 connection signTransaction endpoint w) =
        outcome (executeSwapWithOSlot (env\<lparr>http := net\<rparr>) transactionBase64 connection
               signTransaction endpoint w)"
    by (rule blank_error_message(1) [OF h])
  assume "\<not> truthy (field (Obj fs) ''result'')"
  then show "fst (executeSwapWithOSlot env transactionBase64 connection signTransaction endpoint w) =
            Inl (Error relay_error
              (''0slot error: '' @ JSON_stringify env (Obj ((''message'', Str []) # es))))"
    and "fst (executeSwapWithOSlot (env\<lparr>http := net\<rparr>) transactionBase64 connection
               signTransaction endpoint w) =
            Inl (Error relay_error
              (''0slot error: '' @ JSON_stringify env (Obj (without ''message'' es))))"
    by (rule blank_error_message(2) [OF h], rule blank_error_message(3) [OF h])
next
  assume a: "relay_reply env transactionBase64 signTransaction endpoint = Some response"
    "status response \<noteq> 200"
    "relay_reply (env\<lparr>http := net\<rparr>) transactionBase64 signTransaction endpoint = Some response'"
    "status response' = status response"
    and b: "k \<in> set [''error'', ''message'']
            \<and> body_json response = Some (Obj ((k, Str []) # fs))
            \<and> body_json response' = Some (Obj (without k fs))
          \<or> k \<in> set [''message'', ''code'']
            \<and> body_json response = Some (Obj ((''error'', Obj ((k, Str []) # es)) # fs))
            \<and> body_json response' = Some (Obj ((''error'', Obj (without k es)) # fs))"
  from b a(4) have "errorMessage response = errorMessage response'"
    by (elim disjE conjE) (rule errorMessage_blank errorMessage_blank_nested; assumption)+
  with a show "fst (executeSwapWithOSlot env transactionBase64 connection signTransaction endpoint w) =
        fst (executeSwapWithOSlot (env\<lparr>http := net\<rparr>) transactionBase64 connection
               signTransaction endpoint w)"
    by (simp add: relay_other_status)
next
  assume "k \<in> set [''transaction'', ''swapTransaction'', ''tx'']"
    "\<not> aggregator_marker host swapEndpoint" "\<not> quote_marker swapEndpoint"
    "\<forall>req. req_method req = ''POST'' \<longrightarrow> http env req = Inr response"
    "ok response" "body_json response = Some (Obj ((k, Str []) # fs))"
    "\<forall>req. req_method req = ''POST'' \<longrightarrow> net req = Inr response'"
    "ok response'" "body_json response' = Some (Obj (without k fs))"
  then show "fst (fetchSwapTransaction_with host env swapEndpoint swapParams userPublicKey w) =
        fst (fetchSwapTransaction_with host (env\<lparr>http := net\<rparr>) swapEndpoint swapParams
               userPublicKey w)"
    by (rule blank_legacy)
next
  assume "\<not> aggregator_marker host swapEndpoint" "quote_marker swapEndpoint"
    "\<not> nullish swapParams" "\<not> nullish (field swapParams ''amount'')"
    "printable_params swapParams"
    "\<forall>req. req_method req = ''GET'' \<longrightarrow> http env req = Inr quoteResponse"
    "\<forall>req. req_method req = ''GET'' \<longrightarrow> net req = Inr quoteResponse"
    "ok quoteResponse" "body_json quoteResponse = Some quoteData"
    "\<forall>req. req_method req = ''POST'' \<longrightarrow> http env req = Inr response"
    "ok response" "body_json response = Some (Obj ((''swapTransaction'', Str []) # fs))"
    "\<forall>req. req_method req = ''POST'' \<longrightarrow> net req = Inr response'"
    "ok response'" "body_json response' = Some (Obj (without ''swapTransaction'' fs))"
  then show "fst (fetchSwapTransaction_with host env swapEndpoint swapParams userPublicKey w) =
        fst (fetchSwapTransaction_with host (env\<lparr>http := net\<rparr>) swapEndpoint swapParams
               userPublicKey w)"
    by (rule blank_jupiter)
next
  assume "aggregator_marker host swapEndpoint"
    "\<not> nullish swapParams" "\<not> nullish (field swapParams ''amount'')"
    "printable_params swapParams" "\<not> unprintable userPublicKey"
    "\<forall>req. req_method req = ''GET'' \<longrightarrow> http env req = Inr response"
    "ok response" "body_json response = Some r"
    "\<forall>req. req_method req = ''GET'' \<longrightarrow> net req = Inr response'"
    "ok response'" "body_json response' = Some r'"
    "r = Obj ((''data'', Str []) # fs) \<and> r' = Obj (without ''data'' fs)
          \<or> r = Obj ((''data'', Obj ((''swapData'', Str []) # ds)) # fs)
            \<and> r' = Obj ((''data'', Obj (without ''swapData'' ds)) # fs)
          \<or> r = Obj ((''data'', Obj ((''quote'', Str []) # ds)) # fs)
            \<and> r' = Obj ((''data'', Obj (without ''quote'' ds)) # fs)"
  then show "fst (fetchSwapTransaction_with host env swapEndpoint swapParams userPublicKey w) =
        fst (fetchSwapTransaction_with host (env\<lparr>http := net\<rparr>) swapEndpoint swapParams
               userPublicKey w)"
    by (rule blank_custom)
next
  show "fst (executeSwapWithOSlot env transactionBase64 connection signTransaction endpoint w)
        \<noteq> Inr (Str [])"
    using yields_executeSwapWithOSlot [of env transactionBase64 connection signTransaction endpoint]
    unfolding yields_def by (metis truthy.simps(8))
next
  show "fst (fetchSwapTransaction_with host env swapEndpoint swapParams userPublicKey w)
        \<noteq> Inr (Str [])"
    using yields_fetchSwapTransaction_with [of host env swapEndpoint swapParams userPublicKey]
    unfolding yields_def by (metis truthy.simps(8))
qed

theorem empty_string_field_as_absent_witness:
  \<open>relay_reply (stub_env (reply 200 ''OK'' ''{"result":""}'' (Some (Obj [(''result'', Str '''')]))))
      (Str ''dHg='') stub_sign ''https://relay.example''
     = Some \<lparr>status = 200, statusText = ''OK'', body_text = ''{"result":""}'',
             body_json = Some (Obj [(''result'', Str '''')])\<rparr>
   \<and> relay_reply
        ((stub_env (reply 200 ''OK'' ''{"result":""}'' (Some (Obj [(''result'', Str '''')]))))
           \<lparr>http := reply 200 ''OK'' ''{}'' (Some (Obj []))\<rparr>)
        (Str ''dHg='') stub_sign ''https://relay.example''
     = Some \<lparr>status = 200, statusText = ''OK'', body_text = ''{}'', body_json = Some (Obj [])\<rparr>
   \<and> fst (executeSwapWithOSlot
        (stub_env (reply 200 ''OK'' ''{"result":""}'' (Some (Obj [(''result'', Str '''')]))))
        (Str ''dHg='') () stub_sign ''https://relay.example'' world0)
     = fst (executeSwapWithOSlot
        ((stub_env (reply 200 ''OK'' ''{"result":""}'' (Some (Obj [(''result'', Str '''')]))))
           \<lparr>http := reply 200 ''OK'' ''{}'' (Some (Obj []))\<rparr>)
        (Str ''dHg='') () stub_sign ''https://relay.example'' world0)
   \<and> fst (fetchSwapTransaction_with ''localhost:4000''
        (stub_env (reply 200 ''OK'' ''{"transaction":"","tx":"AQID"}''
           (Some (Obj [(''transaction'', Str ''''), (''tx'', Str ''AQID'')]))))
        ''https://swap.example/api'' params0 payer0 world0)
     = fst (fetchSwapTransaction_with ''localhost:4000''
        ((stub_env (reply 200 ''OK'' ''{"transaction":"","tx":"AQID"}''
           (Some (Obj [(''transaction'', Str ''''), (''tx'', Str ''AQID'')]))))
           \<lparr>http := reply 200 ''OK'' ''{"tx":"AQID"}'' (Some (Obj [(''tx'', Str ''AQID'')]))\<rparr>)
        ''https://swap.example/api'' params0 payer0 world0)
   \<and> outcome (executeSwapWithOSlot
        (stub_env (reply 200 ''OK'' ''{"error":{"message":""}}''
           (Some (Obj [(''error'', Obj [(''message'', Str '''')])]))))
        (Str ''dHg='') () stub_sign ''https://relay.example'' world0)
     = outcome (executeSwapWithOSlot
        ((stub_env (reply 200 ''OK'' ''{"error":{"message":""}}''
           (Some (Obj [(''error'', Obj [(''message'', Str '''')])]))))
           \<lparr>http := reply 200 ''OK'' ''{"error":{}}'' (Some (Obj [(''error'', Obj [])]))\<rparr>)
        (Str ''dHg='') () stub_sign ''https://relay.example'' world0)
   \<and> fst (executeSwapWithOSlot
        (stub_env (reply 200 ''OK'' ''{"error":{"message":""}}''
           (Some (Obj [(''error'', Obj [(''message'', Str '''')])]))))
        (Str ''dHg='') () stub_sign ''https://relay.example'' world0)
     = Inl (Error relay_error ''0slot error: {"message":""}'')\<close>
  using
    empty_string_field_as_absent
      [where k = "''result''" and fs = "[]"
         and env = \<open>stub_env (reply 200 ''OK'' ''{"result":""}'' (Some (Obj [(''result'', Str '''')])))\<close>
         and net = \<open>reply 200 ''OK'' ''{}'' (Some (Obj []))\<close>
         and ?transactionBase64.0 = "Str ''dHg=''" and signTransaction = stub_sign
         and endpoint = "''https://relay.example''" and connection = "()" and w = world0
         and response = \<open>\<lparr>status = 200, statusText = ''OK'', body_text = ''{"result":""}'',
                          body_json = Some (Obj [(''result'', Str '''')])\<rparr>\<close>
         and response' = \<open>\<lparr>status = 200, statusText = ''OK'', body_text = ''{}'',
                           body_json = Some (Obj [])\<rparr>\<close>
         and host = "''localhost:4000''" and swapEndpoint = "''https://swap.example/api''"
         and swapParams = params0 and userPublicKey = payer0
         and r = Null and r' = Null and ds = "[]" and es = "[]"
         and quoteData = Null
         and quoteResponse = \<open>\<lparr>status = 200, statusText = ''OK'', body_text = ''{}'',
                               body_json = Some (Obj [])\<rparr>\<close>]
    empty_string_field_as_absent
      [where k = "''transaction''" and fs = "[(''tx'', Str ''AQID'')]"
         and env = \<open>stub_env (reply 200 ''OK'' ''{"transaction":"","tx":"AQID"}''
           (Some (Obj [(''transaction'', Str ''''), (''tx'', Str ''AQID'')])))\<close>
         and net = \<open>reply 200 ''OK'' ''{"tx":"AQID"}'' (Some (Obj [(''tx'', Str ''AQID'')]))\<close>
         and host = "''localhost:4000''" and swapEndpoint = "''https://swap.example/api''"
         and swapParams = params0 and userPublicKey = payer0 and w = world0
         and response = \<open>\<lparr>status = 200, statusText = ''OK'',
                          body_text = ''{"transaction":"","tx":"AQID"}'',
                          body_json = Some (Obj [(''transaction'', Str ''''), (''tx'', Str ''AQID'')])\<rparr>\<close>
         and response' = \<open>\<lparr>status = 200, statusText = ''OK'', body_text = ''{"tx":"AQID"}'',
                           body_json = Some (Obj [(''tx'', Str ''AQID'')])\<rparr>\<close>
         and ?transactionBase64.0 = "Str ''dHg=''" and signTransaction = stub_sign
         and endpoint = "''https://relay.example''" and connection = "()"
         and r = Null and r' = Null and ds = "[]" and es = "[]"
         and quoteData = Null
         and quoteResponse = \<open>\<lparr>status = 200, statusText = ''OK'', body_text = ''{}'',
                               body_json = Some (Obj [])\<rparr>\<close>]
    empty_string_field_as_absent
      [where k = "''none''" and fs = "[]" and es = "[]"
         and env = \<open>stub_env (reply 200 ''OK'' ''{"error":{"message":""}}''
           (Some (Obj [(''error'', Obj [(''message'', Str '''')])])))\<close>
         and net = \<open>reply 200 ''OK'' ''{"error":{}}'' (Some (Obj [(''error'', Obj [])]))\<close>
         and ?transactionBase64.0 = "Str ''dHg=''" and signTransaction = stub_sign
         and endpoint = "''https://relay.example''" and connection = "()" and w = world0
         and response = \<open>\<lparr>status = 200, statusText = ''OK'',
                          body_text = ''{"error":{"message":""}}'',
                          body_json = Some (Obj [(''error'', Obj [(''message'', Str '''')])])\<rparr>\<close>
         and response' = \<open>\<lparr>status = 200, statusText = ''OK'', body_text = ''{"error":{}}'',
                           body_json = Some (Obj [(''error'', Obj [])])\<rparr>\<close>
         and host = "''localhost:4000''" and swapEndpoint = "''https://swap.example/api''"
         and swapParams = params0 and userPublicKey = payer0
         and r = Null and r' = Null and ds = "[]"
         and quoteData = Null
         and quoteResponse = \<open>\<lparr>status = 200, statusText = ''OK'', body_text = ''{}'',
                               body_json = Some (Obj [])\<rparr>\<close>]
    markers_legacy
  by (simp add: relay_reply_def signed_bytes_def relay_request_def stub_defs ok_def without_def
      field_def)

text \<open>
  C9 as stated fails: the relay answers 200 with \<^verbatim>\<open>{"error":{"message":""}}\<close>, and then with
  \<^verbatim>\<open>{"error":{}}\<close>. The empty message is not treated as an absent one: the two calls fail
  with different errors.
\<close>

theorem empty_error_message_shown_counterexample:
  \<open>fst (executeSwapWithOSlot
        (stub_env (reply 200 ''OK'' ''{"error":{"message":""}}''
           (Some (Obj [(''error'', Obj [(''message'', Str '''')])]))))
        (Str ''dHg='') () stub_sign ''https://relay.example'' world0)
     = Inl (Error relay_error ''0slot error: {"message":""}'')
   \<and> fst (executeSwapWithOSlot
        (stub_env (reply 200 ''OK'' ''{"error":{}}'' (Some (Obj [(''error'', Obj [])]))))
        (Str ''dHg='') () stub_sign ''https://relay.example'' world0)
     = Inl (Error relay_error ''0slot error: {}'')
   \<and> fst (executeSwapWithOSlot
        (stub_env (reply 200 ''OK'' ''{"error":{"message":""}}''
           (Some (Obj [(''error'', Obj [(''message'', Str '''')])]))))
        (Str ''dHg='') () stub_sign ''https://relay.example'' world0)
     \<noteq> fst (executeSwapWithOSlot
        (stub_env (reply 200 ''OK'' ''{"error":{}}'' (Some (Obj [(''error'', Obj [])]))))
        (Str ''dHg='') () stub_sign ''https://relay.example'' world0)\<close>
  by (simp add: fst_executeSwapWithOSlot submission_result_def relay_result_def relay_request_def
      stub_defs Let_def nullish_def field_def js_or_def)

end
